theory Spec2Isabelle
  imports Complex_Main
begin

section \<open>The training and evaluation orchestrator of YOWO (main.py)\<close>

text \<open>
  The repository's only source file is \<^verbatim>\<open>main.py\<close>; its function \<^verbatim>\<open>main(cfg)\<close>
  builds a model and an optimizer, optionally resumes from a checkpoint, selects the
  dataset-specific loaders and procedures, and then either evaluates once or runs the
  epoch loop with checkpointing.

  The embedding follows \<^verbatim>\<open>main\<close> section by section (the source's own
  \<^verbatim>\<open># == ... == #\<close> headers). Everything \<^verbatim>\<open>main\<close> calls lives outside the file
  (the model, the optimizer, the loaders, the training and evaluation procedures, the
  learning-rate schedule, the checkpoint writer); these collaborators are parameters of
  the embedding, gathered in a record, and each of them may raise. What the process has
  done to the outside is kept explicitly: the file system and a chronological trace with
  one event per completed collaborator call and per emitted output line.
\<close>

subsection \<open>Configuration\<close>

text \<open>
  The fields of the configuration object that \<^verbatim>\<open>main\<close> reads, named after their
  path in the object (\<^verbatim>\<open>cfg.TRAIN.BEGIN_EPOCH\<close> is \<open>TRAIN_BEGIN_EPOCH\<close>). Epoch
  numbers are Python integers.
\<close>

record config =
  TRAIN_DATASET :: string
  TRAIN_BEGIN_EPOCH :: int
  TRAIN_END_EPOCH :: int
  TRAIN_EVALUATE :: bool
  TRAIN_RESUME_PATH :: string
  TRAIN_LEARNING_RATE :: real
  TRAIN_BATCH_SIZE :: int
  SOLVER_WEIGHT_DECAY :: real
  LISTDATA_BASE_PTH :: string
  LISTDATA_TRAIN_FILE :: string
  LISTDATA_TEST_FILE :: string
  DATA_TRAIN_CROP_SIZE :: int
  DATA_NUM_FRAMES :: int
  DATA_SAMPLING_RATE :: int
  DATA_LOADER_NUM_WORKERS :: int
  BACKUP_DIR :: string

subsection \<open>Checkpoints, files, errors and events\<close>

text \<open>
  The dictionary built at lines 114 to 118 and read back at lines 54 to 57: the keys
  \<^verbatim>\<open>'epoch'\<close>, \<^verbatim>\<open>'state_dict'\<close>, \<^verbatim>\<open>'optimizer'\<close> and \<^verbatim>\<open>'score'\<close>.
  The type \<open>'m\<close> stands for the model's parameters (what \<^verbatim>\<open>state_dict()\<close> returns and
  \<^verbatim>\<open>load_state_dict\<close> installs), \<open>'o\<close> for the optimizer's state. Scores are real
  numbers.
\<close>

record ('m, 'o) checkpoint =
  ck_epoch :: int
  ck_state_dict :: 'm
  ck_optimizer :: 'o
  ck_score :: real

text \<open>
  What \<^verbatim>\<open>osp.isfile\<close> and \<^verbatim>\<open>torch.load\<close> can find at a path: nothing, a file
  that cannot be read back as a checkpoint of this model (\<open>Corrupt\<close>: some statement of
  lines 53 to 57 raises), or a checkpoint.
\<close>

datatype ('m, 'o) file_content = Corrupt | Ckpt "('m, 'o) checkpoint"

type_synonym ('m, 'o) files = "string \<rightharpoonup> ('m, 'o) file_content"

datatype error =
    AssertionError string
  | UnboundLocalError string
  | UnpicklingError string
  | RuntimeError string

text \<open>The lines written by \<^verbatim>\<open>print\<close> and \<^verbatim>\<open>logging\<close>, with their arguments.\<close>

datatype msg =
    TotalParams nat
  | Separator
  | LoadingCheckpoint string
  | LoadedModelScore real
  | DatasetIs string
  | Evaluating
  | TrainingAtEpoch int real
  | TestingAtEpoch int
  | NewBestScore real
  | PreviousScore real
  | WeightsSaved string

datatype ('m, 'o) event =
    CreateModel
  | ManualSeed int
  | SetEnviron string string
  | CudaManualSeed int
  | CreateOptimizer
  | TorchLoad string
  | LoadData string
  | AdjustLR int real
  | Train int
  | Test int real
  | SaveCheckpoint "('m, 'o) checkpoint" bool string string int
  | Print msg
  | Logging msg

subsection \<open>The outside world and the local state of main\<close>

record ('m, 'o) world =
  fs :: "('m, 'o) files"
  trace :: "('m, 'o) event list"

text \<open>
  The local variables of \<^verbatim>\<open>main\<close> once model and optimizer exist. The configuration
  object is part of the state because line 54 assigns to one of its fields. The five
  locals \<^verbatim>\<open>train_loader\<close>, \<^verbatim>\<open>test_loader\<close>, \<^verbatim>\<open>loss_module\<close>, \<^verbatim>\<open>train\<close> and
  \<^verbatim>\<open>test\<close> are bound together, in the branch of line 70 only: \<open>procs\<close> is \<open>None\<close>
  while they are unbound.
\<close>

record ('m, 'o, 'd) state = "('m, 'o) world" +
  cfg :: config
  model :: 'm
  optimizer :: 'o
  best_score :: real
  procs :: "'d option"

text \<open>
  A run either raises (the process ends; what remains is the outside world as it was
  then) or returns.
\<close>

type_synonym ('m, 'o, 'a) result = "(error \<times> ('m, 'o) world) + 'a"

definition world_of :: "('m, 'o, 'd) state \<Rightarrow> ('m, 'o) world" where
  "world_of s = \<lparr>fs = fs s, trace = trace s\<rparr>"

definition emit :: "('m, 'o) event list \<Rightarrow> ('m, 'o, 'z) world_scheme \<Rightarrow> ('m, 'o, 'z) world_scheme" where
  "emit evs w = w\<lparr>trace := trace w @ evs\<rparr>"

definition raise :: "error \<Rightarrow> ('m, 'o, 'd) state \<Rightarrow> ('m, 'o, 'a) result" where
  "raise e s = Inl (e, world_of s)"

definition isfile :: "('m, 'o) files \<Rightarrow> string \<Rightarrow> bool" where
  "isfile files p = (files p \<noteq> None)"

subsection \<open>The collaborators\<close>

text \<open>
  Everything \<^verbatim>\<open>main\<close> calls and the file does not define. Each call either raises
  (\<open>Inl\<close>) or returns. \<open>YOWO\<close> stands for lines 27 to 29 (construction, move to the
  device, data-parallel wrapper), \<open>numel\<close> for the parameter count of line 31,
  \<open>Adam\<close> for lines 42 to 45, \<open>load_data\<close> for lines 71 to 88 (both datasets, both
  loaders, the loss module and the look-up of the two procedures), whose result \<open>'d\<close>
  is what the procedures receive. The training procedure updates model and optimizer in
  place; the evaluation procedure returns a score; \<^verbatim>\<open>adjust_learning_rate\<close> updates
  the optimizer and returns the new rate; \<^verbatim>\<open>save_checkpoint\<close> writes to the file system.

  Three things are taken from the specification's description of the collaborators rather
  than from their code, which is not in the file: the evaluation procedure is a read-only
  pass (it returns a score and leaves the model as it was), only \<^verbatim>\<open>save_checkpoint\<close>
  writes files, and a collaborator that is handed the configuration object reads it
  without assigning to it. \<^verbatim>\<open>load_state_dict\<close> and \<^verbatim>\<open>state_dict\<close> are PyTorch's:
  the first installs the stored state in place of the current one, the second reads the
  current state.
\<close>

record ('m, 'o, 'd) env =
  YOWO :: "config \<Rightarrow> error + 'm"
  numel :: "'m \<Rightarrow> nat"
  cuda_is_available :: bool
  Adam :: "'m \<Rightarrow> config \<Rightarrow> error + 'o"
  load_data :: "config \<Rightarrow> string \<Rightarrow> error + 'd"
  adjust_learning_rate :: "'o \<Rightarrow> int \<Rightarrow> config \<Rightarrow> error + (real \<times> 'o)"
  train_ucf24_jhmdb21 :: "config \<Rightarrow> int \<Rightarrow> 'm \<Rightarrow> 'd \<Rightarrow> 'o \<Rightarrow> error + ('m \<times> 'o)"
  test_ucf24_jhmdb21 :: "config \<Rightarrow> int \<Rightarrow> 'm \<Rightarrow> 'd \<Rightarrow> error + real"
  save_checkpoint :: "('m, 'o) checkpoint \<Rightarrow> bool \<Rightarrow> string \<Rightarrow> string \<Rightarrow> int \<Rightarrow>
                      ('m, 'o) files \<Rightarrow> error + ('m, 'o) files"

subsection \<open>main, section by section\<close>

text \<open>Lines 26 to 46: model, seeds, optimizer, \<^verbatim>\<open>best_score = 0\<close>.\<close>

definition create :: "('m, 'o, 'd) env \<Rightarrow> config \<Rightarrow> ('m, 'o) files \<Rightarrow> ('m, 'o, ('m, 'o, 'd) state) result" where
  "create E c files =
     (let w0 = \<lparr>fs = files, trace = []\<rparr> in
      case YOWO E c of
        Inl e \<Rightarrow> Inl (e, w0)
      | Inr m \<Rightarrow>
         (let w1 = emit [CreateModel, Logging (TotalParams (numel E m)), ManualSeed 42] w0;
              w2 = (if cuda_is_available E
                    then emit [SetEnviron ''CUDA_VISIBLE_DEVICES'' ''0'', CudaManualSeed 42] w1
                    else w1)
          in (case Adam E m c of
                Inl e \<Rightarrow> Inl (e, w2)
              | Inr opt \<Rightarrow>
                  Inr \<lparr>fs = fs w2, trace = trace w2 @ [CreateOptimizer],
                       cfg = c, model = m, optimizer = opt, best_score = 0, procs = None\<rparr>)))"

text \<open>Lines 49 to 62: resume.\<close>

definition load_resume :: "('m, 'o, 'd) state \<Rightarrow> ('m, 'o, ('m, 'o, 'd) state) result" where
  "load_resume s =
     (let p = TRAIN_RESUME_PATH (cfg s) in
      if isfile (fs s) p then
        let s1 = emit [Print Separator, Print (LoadingCheckpoint p)] s in
        case fs s p of
          Some (Ckpt checkpoint) \<Rightarrow>
            Inr (emit [TorchLoad p,
                       Print (LoadedModelScore (ck_score checkpoint)), Print Separator]
                   (s1\<lparr>cfg := (cfg s1)\<lparr>TRAIN_BEGIN_EPOCH := ck_epoch checkpoint + 1\<rparr>,
                       best_score := ck_score checkpoint,
                       model := ck_state_dict checkpoint,
                       optimizer := ck_optimizer checkpoint\<rparr>))
        | _ \<Rightarrow> raise (UnpicklingError p) s1
      else Inr s)"

text \<open>Lines 64 to 88: the assertion on the dataset name and the dataset branch.\<close>

definition select_dataset :: "('m, 'o, 'd) env \<Rightarrow> ('m, 'o, 'd) state \<Rightarrow> ('m, 'o, ('m, 'o, 'd) state) result" where
  "select_dataset E s =
     (let dataset = TRAIN_DATASET (cfg s) in
      if \<not> (dataset = ''ucf24'' \<or> dataset = ''jhmdb21'' \<or> dataset = ''ava'')
      then raise (AssertionError ''invalid dataset'') s
      else
        let s1 = emit [Print (DatasetIs dataset)] s in
        if dataset \<in> set [''ucf24'', ''jhmdb21''] then
          (case load_data E (cfg s1) dataset of
             Inl e \<Rightarrow> raise e s1
           | Inr d \<Rightarrow> Inr (emit [LoadData dataset] (s1\<lparr>procs := Some d\<rparr>)))
        else Inr s1)"

text \<open>Lines 97 to 120: the body of the loop, one epoch.\<close>

definition epoch_cycle :: "('m, 'o, 'd) env \<Rightarrow> int \<Rightarrow> ('m, 'o, 'd) state \<Rightarrow> ('m, 'o, ('m, 'o, 'd) state) result" where
  "epoch_cycle E epoch s =
     (case adjust_learning_rate E (optimizer s) epoch (cfg s) of
        Inl e \<Rightarrow> raise e s
      | Inr (lr_new, opt1) \<Rightarrow>
         (let s1 = emit [AdjustLR epoch lr_new, Logging (TrainingAtEpoch epoch lr_new)]
                     (s\<lparr>optimizer := opt1\<rparr>)
          in (case procs s1 of
                None \<Rightarrow> raise (UnboundLocalError ''train'') s1
              | Some d \<Rightarrow>
                 (case train_ucf24_jhmdb21 E (cfg s1) epoch (model s1) d (optimizer s1) of
                    Inl e \<Rightarrow> raise e s1
                  | Inr (m2, opt2) \<Rightarrow>
                     (let s2 = emit [Train epoch, Logging (TestingAtEpoch epoch)]
                                 (s1\<lparr>model := m2, optimizer := opt2\<rparr>)
                      in (case test_ucf24_jhmdb21 E (cfg s2) epoch (model s2) d of
                            Inl e \<Rightarrow> raise e s2
                          | Inr score \<Rightarrow>
                             (let s3 = emit [Test epoch score] s2;
                                  is_best = (score > best_score s3);
                                  s4 = (if is_best
                                        then emit [Print (NewBestScore score),
                                                   Print (PreviousScore (best_score s3))]
                                               (s3\<lparr>best_score := score\<rparr>)
                                        else s3);
                                  st = \<lparr>ck_epoch = epoch, ck_state_dict = model s4,
                                        ck_optimizer = optimizer s4, ck_score = score\<rparr>
                              in (case save_checkpoint E st is_best (BACKUP_DIR (cfg s4))
                                         (TRAIN_DATASET (cfg s4)) (DATA_NUM_FRAMES (cfg s4)) (fs s4) of
                                    Inl e \<Rightarrow> raise e s4
                                  | Inr files \<Rightarrow>
                                      Inr (emit [SaveCheckpoint st is_best (BACKUP_DIR (cfg s4))
                                                   (TRAIN_DATASET (cfg s4)) (DATA_NUM_FRAMES (cfg s4)),
                                                 Logging (WeightsSaved (BACKUP_DIR (cfg s4)))]
                                             (s4\<lparr>fs := files\<rparr>))))))))))"

text \<open>Line 96: the loop over the epochs of the range, in order.\<close>

fun epoch_loop :: "('m, 'o, 'd) env \<Rightarrow> int list \<Rightarrow> ('m, 'o, 'd) state \<Rightarrow> ('m, 'o, ('m, 'o, 'd) state) result" where
  "epoch_loop E [] s = Inr s"
| "epoch_loop E (epoch # epochs) s =
     (case epoch_cycle E epoch s of
        Inl e \<Rightarrow> Inl e
      | Inr s' \<Rightarrow> epoch_loop E epochs s')"

text \<open>
  Lines 90 to 120: the schedule. \<^verbatim>\<open>range(b, e + 1)\<close> is the list \<open>[b..e]\<close>, fixed
  when the loop starts.
\<close>

definition schedule :: "('m, 'o, 'd) env \<Rightarrow> ('m, 'o, 'd) state \<Rightarrow> ('m, 'o, ('m, 'o, 'd) state) result" where
  "schedule E s =
     (if TRAIN_EVALUATE (cfg s) then
        let s1 = emit [Logging Evaluating] s in
        case procs s1 of
          None \<Rightarrow> raise (UnboundLocalError ''test'') s1
        | Some d \<Rightarrow>
           (case test_ucf24_jhmdb21 E (cfg s1) 0 (model s1) d of
              Inl e \<Rightarrow> raise e s1
            | Inr score \<Rightarrow> Inr (emit [Test 0 score] s1))
      else epoch_loop E [TRAIN_BEGIN_EPOCH (cfg s) .. TRAIN_END_EPOCH (cfg s)] s)"

text \<open>The part of \<^verbatim>\<open>main\<close> before the dataset is looked at: lines 26 to 62.\<close>

definition prepare :: "('m, 'o, 'd) env \<Rightarrow> config \<Rightarrow> ('m, 'o) files \<Rightarrow> ('m, 'o, ('m, 'o, 'd) state) result" where
  "prepare E c files =
     (case create E c files of Inl e \<Rightarrow> Inl e | Inr s \<Rightarrow> load_resume s)"

definition main :: "('m, 'o, 'd) env \<Rightarrow> config \<Rightarrow> ('m, 'o) files \<Rightarrow> ('m, 'o, ('m, 'o, 'd) state) result" where
  "main E c files =
     (case prepare E c files of
        Inl e \<Rightarrow> Inl e
      | Inr s \<Rightarrow>
         (case select_dataset E s of
            Inl e \<Rightarrow> Inl e
          | Inr s' \<Rightarrow> schedule E s'))"

subsection \<open>Reading a trace\<close>

text \<open>
  The calls of the training and evaluation procedures in a trace, in order, each with its
  epoch number; the evaluation scores; the calls of \<^verbatim>\<open>save_checkpoint\<close> with the
  record and the flag they were given.
\<close>

datatype call = TrainCall int | TestCall int

fun call_of :: "('m, 'o) event \<Rightarrow> call list" where
  "call_of (Train epoch) = [TrainCall epoch]"
| "call_of (Test epoch score) = [TestCall epoch]"
| "call_of _ = []"

definition calls :: "('m, 'o) event list \<Rightarrow> call list" where
  "calls evs = concat (map call_of evs)"

fun train_of :: "('m, 'o) event \<Rightarrow> int list" where
  "train_of (Train epoch) = [epoch]"
| "train_of _ = []"

definition train_calls :: "('m, 'o) event list \<Rightarrow> int list" where
  "train_calls evs = concat (map train_of evs)"

fun test_of :: "('m, 'o) event \<Rightarrow> (int \<times> real) list" where
  "test_of (Test epoch score) = [(epoch, score)]"
| "test_of _ = []"

definition test_calls :: "('m, 'o) event list \<Rightarrow> (int \<times> real) list" where
  "test_calls evs = concat (map test_of evs)"

definition scores :: "('m, 'o) event list \<Rightarrow> real list" where
  "scores evs = map snd (test_calls evs)"

fun save_of :: "('m, 'o) event \<Rightarrow> (('m, 'o) checkpoint \<times> bool) list" where
  "save_of (SaveCheckpoint st is_best dir dataset frames) = [(st, is_best)]"
| "save_of _ = []"

definition saves :: "('m, 'o) event list \<Rightarrow> (('m, 'o) checkpoint \<times> bool) list" where
  "saves evs = concat (map save_of evs)"

fun model_of :: "('m, 'o) event \<Rightarrow> unit list" where
  "model_of CreateModel = [()]"
| "model_of _ = []"

definition model_built :: "('m, 'o) event list \<Rightarrow> bool" where
  "model_built evs = (concat (map model_of evs) \<noteq> [])"

fun data_of :: "('m, 'o) event \<Rightarrow> string list" where
  "data_of (LoadData dataset) = [dataset]"
| "data_of _ = []"

definition data_loads :: "('m, 'o) event list \<Rightarrow> string list" where
  "data_loads evs = concat (map data_of evs)"

text \<open>The cycles of the epochs of a list: training, then evaluation, epoch by epoch.\<close>

definition cycles :: "int list \<Rightarrow> call list" where
  "cycles epochs = concat (map (\<lambda>epoch. [TrainCall epoch, TestCall epoch]) epochs)"

text \<open>
  The best score after a list of scores, from a seed, as lines 108 to 112 compute it, and
  the flags \<^verbatim>\<open>is_best\<close> along the way.
\<close>

fun best_after :: "real \<Rightarrow> real list \<Rightarrow> real" where
  "best_after best [] = best"
| "best_after best (score # rest) = best_after (if score > best then score else best) rest"

fun best_flags :: "real \<Rightarrow> real list \<Rightarrow> bool list" where
  "best_flags best [] = []"
| "best_flags best (score # rest) =
     (score > best) # best_flags (if score > best then score else best) rest"

text \<open>What a run leaves behind, raised or returned.\<close>

definition outcome :: "('m, 'o, ('m, 'o, 'd) state) result \<Rightarrow> ('m, 'o) world" where
  "outcome r = (case r of Inl (e, w) \<Rightarrow> w | Inr s \<Rightarrow> world_of s)"

text \<open>The state a run returns, if it returns.\<close>

definition returned :: "('m, 'o, ('m, 'o, 'd) state) result \<Rightarrow> ('m, 'o, 'd) state option" where
  "returned r = (case r of Inl ew \<Rightarrow> None | Inr s \<Rightarrow> Some s)"


subsection \<open>The checkpoint store\<close>

datatype slot = Latest | Best

text \<open>
  Modelled from the spec: \<^verbatim>\<open>save_checkpoint\<close> is defined in \<^verbatim>\<open>core.utils\<close>, which
  is not among the sources. The specification gives it two named slots per run,
  distinguished by a file naming convention that incorporates the backup directory, the
  dataset identifier and the frame count: the record is persisted unconditionally as
  "latest" and, if \<^verbatim>\<open>is_best\<close>, additionally as "best". The naming convention
  is the parameter \<open>path_of\<close>.
\<close>

definition write_slots ::
  "(slot \<Rightarrow> string \<Rightarrow> string \<Rightarrow> int \<Rightarrow> string) \<Rightarrow> ('m, 'o) checkpoint \<Rightarrow> bool \<Rightarrow>
   string \<Rightarrow> string \<Rightarrow> int \<Rightarrow> ('m, 'o) files \<Rightarrow> ('m, 'o) files" where
  "write_slots path_of st is_best dir dataset frames files =
     (let files1 = files(path_of Latest dir dataset frames \<mapsto> Ckpt st)
      in if is_best then files1(path_of Best dir dataset frames \<mapsto> Ckpt st) else files1)"

text \<open>
  A collaborator record whose \<^verbatim>\<open>save_checkpoint\<close>, whenever it returns, has written
  the slots as the specification says (it may still raise, on a full disk for example).
\<close>

definition saves_as_specified ::
  "(slot \<Rightarrow> string \<Rightarrow> string \<Rightarrow> int \<Rightarrow> string) \<Rightarrow> ('m, 'o, 'd) env \<Rightarrow> bool" where
  "saves_as_specified path_of E =
     (\<forall>st is_best dir dataset frames files files'.
        save_checkpoint E st is_best dir dataset frames files = Inr files' \<longrightarrow>
        files' = write_slots path_of st is_best dir dataset frames files)"

text \<open>
  Modelled from the spec: the slots after a sequence of calls of \<^verbatim>\<open>save_checkpoint\<close>,
  each writing as \<open>write_slots\<close> says, in order.
\<close>

fun write_all ::
  "(slot \<Rightarrow> string \<Rightarrow> string \<Rightarrow> int \<Rightarrow> string) \<Rightarrow> string \<Rightarrow> string \<Rightarrow> int \<Rightarrow>
   ('m, 'o) files \<Rightarrow> (('m, 'o) checkpoint \<times> bool) list \<Rightarrow> ('m, 'o) files" where
  "write_all path_of dir dataset frames files [] = files"
| "write_all path_of dir dataset frames files ((st, is_best) # rest) =
     write_all path_of dir dataset frames
       (write_slots path_of st is_best dir dataset frames files) rest"

subsection \<open>A small concrete run\<close>

text \<open>
  Concrete collaborators for evaluating the definitions: the model and the optimizer
  state count the training epochs they have seen, the evaluation score of an epoch is
  given by a function, and checkpoints are written as the specification says under the
  names \<open>demo_path\<close>.
\<close>

definition demo_path :: "slot \<Rightarrow> string \<Rightarrow> string \<Rightarrow> int \<Rightarrow> string" where
  "demo_path sl dir dataset frames =
     dir @ ''/'' @ dataset @ (case sl of Latest \<Rightarrow> ''_checkpoint'' | Best \<Rightarrow> ''_best'')"

definition demo_env :: "(int \<Rightarrow> real) \<Rightarrow> (nat, nat, unit) env" where
  "demo_env score_at =
     \<lparr>YOWO = (\<lambda>c. Inr 0),
      numel = (\<lambda>m. 7),
      cuda_is_available = True,
      Adam = (\<lambda>m c. Inr 0),
      load_data = (\<lambda>c dataset. Inr ()),
      adjust_learning_rate = (\<lambda>opt epoch c. Inr (TRAIN_LEARNING_RATE c, opt)),
      train_ucf24_jhmdb21 = (\<lambda>c epoch m d opt. Inr (Suc m, Suc opt)),
      test_ucf24_jhmdb21 = (\<lambda>c epoch m d. Inr (score_at epoch)),
      save_checkpoint = (\<lambda>st is_best dir dataset frames files.
                           Inr (write_slots demo_path st is_best dir dataset frames files))\<rparr>"

definition demo_score :: "int \<Rightarrow> real" where
  "demo_score epoch = (if epoch = 1 then 1 / 2 else if epoch = 2 then 1 / 2 else 1 / 4)"

definition demo_cfg :: config where
  "demo_cfg =
     \<lparr>TRAIN_DATASET = ''ucf24'', TRAIN_BEGIN_EPOCH = 1, TRAIN_END_EPOCH = 3,
      TRAIN_EVALUATE = False, TRAIN_RESUME_PATH = ''r'', TRAIN_LEARNING_RATE = 1 / 10000,
      TRAIN_BATCH_SIZE = 8, SOLVER_WEIGHT_DECAY = 5 / 10000, LISTDATA_BASE_PTH = ''d'',
      LISTDATA_TRAIN_FILE = ''tr'', LISTDATA_TEST_FILE = ''te'', DATA_TRAIN_CROP_SIZE = 224,
      DATA_NUM_FRAMES = 16, DATA_SAMPLING_RATE = 1, DATA_LOADER_NUM_WORKERS = 4,
      BACKUP_DIR = ''b''\<rparr>"

definition demo_ckpt :: "real \<Rightarrow> (nat, nat) checkpoint" where
  "demo_ckpt score = \<lparr>ck_epoch = 1, ck_state_dict = 5, ck_optimizer = 6, ck_score = score\<rparr>"



text \<open>A state as \<^verbatim>\<open>main\<close> has it when the loop starts, in a fresh run on \<^verbatim>\<open>ucf24\<close>.\<close>

definition demo_loop_state :: "(nat, nat, unit) state" where
  "demo_loop_state =
     \<lparr>fs = Map.empty, trace = [], cfg = demo_cfg, model = 0, optimizer = 0, best_score = 0,
      procs = Some ()\<rparr>"

text \<open>Evaluation scores none of which exceeds 0: a tie with the initial best score, then less.\<close>

definition flat_score :: "int \<Rightarrow> real" where
  "flat_score epoch = (if epoch = 1 then 0 else - 1)"

section \<open>Lemmas about the steps of main\<close>

subsection \<open>Traces\<close>

lemma calls_append: "calls (xs @ ys) = calls xs @ calls ys" by (simp add: calls_def)
lemma train_calls_append: "train_calls (xs @ ys) = train_calls xs @ train_calls ys" by (simp add: train_calls_def)
lemma test_calls_append: "test_calls (xs @ ys) = test_calls xs @ test_calls ys" by (simp add: test_calls_def)
lemma scores_append: "scores (xs @ ys) = scores xs @ scores ys" by (simp add: scores_def test_calls_def)
lemma saves_append: "saves (xs @ ys) = saves xs @ saves ys" by (simp add: saves_def)
lemma data_loads_append: "data_loads (xs @ ys) = data_loads xs @ data_loads ys" by (simp add: data_loads_def)
lemma model_built_append: "model_built (xs @ ys) = (model_built xs \<or> model_built ys)" by (simp add: model_built_def)

lemmas trace_append = calls_append train_calls_append test_calls_append scores_append
  saves_append data_loads_append model_built_append

lemmas trace_defs = calls_def train_calls_def test_calls_def scores_def saves_def
  data_loads_def model_built_def

text \<open>The state after a completed epoch, written out.\<close>

lemma epoch_cycle_cases:
  assumes "epoch_cycle E epoch s = Inr s'"
  obtains lr opt1 d m2 opt2 score files where
    "adjust_learning_rate E (optimizer s) epoch (cfg s) = Inr (lr, opt1)"
    "procs s = Some d"
    "train_ucf24_jhmdb21 E (cfg s) epoch (model s) d opt1 = Inr (m2, opt2)"
    "test_ucf24_jhmdb21 E (cfg s) epoch m2 d = Inr score"
    "save_checkpoint E
       \<lparr>ck_epoch = epoch, ck_state_dict = m2, ck_optimizer = opt2, ck_score = score\<rparr>
       (score > best_score s) (BACKUP_DIR (cfg s)) (TRAIN_DATASET (cfg s))
       (DATA_NUM_FRAMES (cfg s)) (fs s) = Inr files"
    "s' = s\<lparr>fs := files,
            trace := trace s @
              [AdjustLR epoch lr, Logging (TrainingAtEpoch epoch lr), Train epoch,
               Logging (TestingAtEpoch epoch), Test epoch score] @
              (if score > best_score s
               then [Print (NewBestScore score), Print (PreviousScore (best_score s))]
               else []) @
              [SaveCheckpoint
                 \<lparr>ck_epoch = epoch, ck_state_dict = m2, ck_optimizer = opt2, ck_score = score\<rparr>
                 (score > best_score s) (BACKUP_DIR (cfg s)) (TRAIN_DATASET (cfg s))
                 (DATA_NUM_FRAMES (cfg s)),
               Logging (WeightsSaved (BACKUP_DIR (cfg s)))],
            model := m2, optimizer := opt2,
            best_score := (if score > best_score s then score else best_score s)\<rparr>"
proof -
  obtain lr opt1 where a: "adjust_learning_rate E (optimizer s) epoch (cfg s) = Inr (lr, opt1)"
    using assms
    by (cases "adjust_learning_rate E (optimizer s) epoch (cfg s)")
       (auto simp: epoch_cycle_def raise_def)
  obtain d where p: "procs s = Some d"
    using assms a
    by (cases "procs s") (auto simp: epoch_cycle_def raise_def emit_def)
  obtain m2 opt2 where
    t: "train_ucf24_jhmdb21 E (cfg s) epoch (model s) d opt1 = Inr (m2, opt2)"
    using assms a p
    by (cases "train_ucf24_jhmdb21 E (cfg s) epoch (model s) d opt1")
       (auto simp: epoch_cycle_def raise_def emit_def)
  obtain score where te: "test_ucf24_jhmdb21 E (cfg s) epoch m2 d = Inr score"
    using assms a p t
    by (cases "test_ucf24_jhmdb21 E (cfg s) epoch m2 d")
       (auto simp: epoch_cycle_def raise_def emit_def)
  let ?st = "\<lparr>ck_epoch = epoch, ck_state_dict = m2, ck_optimizer = opt2, ck_score = score\<rparr>"
  let ?sv = "save_checkpoint E ?st (score > best_score s) (BACKUP_DIR (cfg s))
               (TRAIN_DATASET (cfg s)) (DATA_NUM_FRAMES (cfg s)) (fs s)"
  obtain files where sv: "?sv = Inr files"
    using assms a p t te
    by (cases ?sv; cases "score > best_score s")
       (auto simp: epoch_cycle_def raise_def emit_def Let_def)
  have "s' = s\<lparr>fs := files,
            trace := trace s @
              [AdjustLR epoch lr, Logging (TrainingAtEpoch epoch lr), Train epoch,
               Logging (TestingAtEpoch epoch), Test epoch score] @
              (if score > best_score s
               then [Print (NewBestScore score), Print (PreviousScore (best_score s))]
               else []) @
              [SaveCheckpoint ?st
                 (score > best_score s) (BACKUP_DIR (cfg s)) (TRAIN_DATASET (cfg s))
                 (DATA_NUM_FRAMES (cfg s)),
               Logging (WeightsSaved (BACKUP_DIR (cfg s)))],
            model := m2, optimizer := opt2,
            best_score := (if score > best_score s then score else best_score s)\<rparr>"
    using assms a p t te sv
    by (cases "score > best_score s")
       (auto simp: epoch_cycle_def raise_def emit_def Let_def)
  with a p t te sv that show thesis by blast
qed


lemma epoch_cycle_returns:
  assumes "epoch_cycle E epoch s = Inr s'"
  shows "\<exists>score lr opt1 d.
           adjust_learning_rate E (optimizer s) epoch (cfg s) = Inr (lr, opt1) \<and>
           procs s = Some d \<and>
           train_ucf24_jhmdb21 E (cfg s) epoch (model s) d opt1 = Inr (model s', optimizer s') \<and>
           test_ucf24_jhmdb21 E (cfg s) epoch (model s') d = Inr score \<and>
           save_checkpoint E
             \<lparr>ck_epoch = epoch, ck_state_dict = model s', ck_optimizer = optimizer s',
               ck_score = score\<rparr>
             (score > best_score s) (BACKUP_DIR (cfg s)) (TRAIN_DATASET (cfg s))
             (DATA_NUM_FRAMES (cfg s)) (fs s) = Inr (fs s') \<and>
           calls (trace s') = calls (trace s) @ [TrainCall epoch, TestCall epoch] \<and>
           train_calls (trace s') = train_calls (trace s) @ [epoch] \<and>
           test_calls (trace s') = test_calls (trace s) @ [(epoch, score)] \<and>
           saves (trace s') = saves (trace s) @
             [(\<lparr>ck_epoch = epoch, ck_state_dict = model s', ck_optimizer = optimizer s',
                ck_score = score\<rparr>, score > best_score s)] \<and>
           data_loads (trace s') = data_loads (trace s) \<and>
           model_built (trace s') = model_built (trace s) \<and>
           best_score s' = (if score > best_score s then score else best_score s) \<and>
           cfg s' = cfg s \<and> procs s' = procs s"
proof -
  from assms obtain lr opt1 d m2 opt2 score files where
    a: "adjust_learning_rate E (optimizer s) epoch (cfg s) = Inr (lr, opt1)" and
    p: "procs s = Some d" and
    t: "train_ucf24_jhmdb21 E (cfg s) epoch (model s) d opt1 = Inr (m2, opt2)" and
    te: "test_ucf24_jhmdb21 E (cfg s) epoch m2 d = Inr score" and
    sv: "save_checkpoint E
       \<lparr>ck_epoch = epoch, ck_state_dict = m2, ck_optimizer = opt2, ck_score = score\<rparr>
       (score > best_score s) (BACKUP_DIR (cfg s)) (TRAIN_DATASET (cfg s))
       (DATA_NUM_FRAMES (cfg s)) (fs s) = Inr files" and
    s': "s' = s\<lparr>fs := files,
            trace := trace s @
              [AdjustLR epoch lr, Logging (TrainingAtEpoch epoch lr), Train epoch,
               Logging (TestingAtEpoch epoch), Test epoch score] @
              (if score > best_score s
               then [Print (NewBestScore score), Print (PreviousScore (best_score s))]
               else []) @
              [SaveCheckpoint
                 \<lparr>ck_epoch = epoch, ck_state_dict = m2, ck_optimizer = opt2, ck_score = score\<rparr>
                 (score > best_score s) (BACKUP_DIR (cfg s)) (TRAIN_DATASET (cfg s))
                 (DATA_NUM_FRAMES (cfg s)),
               Logging (WeightsSaved (BACKUP_DIR (cfg s)))],
            model := m2, optimizer := opt2,
            best_score := (if score > best_score s then score else best_score s)\<rparr>"
    by (rule epoch_cycle_cases)
  have m: "model s' = m2" "optimizer s' = opt2" "fs s' = files" "cfg s' = cfg s"
    "procs s' = procs s"
    "best_score s' = (if score > best_score s then score else best_score s)"
    by (simp_all add: s')
  have tr: "calls (trace s') = calls (trace s) @ [TrainCall epoch, TestCall epoch]"
    "train_calls (trace s') = train_calls (trace s) @ [epoch]"
    "test_calls (trace s') = test_calls (trace s) @ [(epoch, score)]"
    "saves (trace s') = saves (trace s) @
       [(\<lparr>ck_epoch = epoch, ck_state_dict = m2, ck_optimizer = opt2, ck_score = score\<rparr>,
         score > best_score s)]"
    "data_loads (trace s') = data_loads (trace s)"
    "model_built (trace s') = model_built (trace s)"
    by (auto simp: s' trace_defs)
  show ?thesis
    apply (rule exI [of _ score], rule exI [of _ lr], rule exI [of _ opt1], rule exI [of _ d])
    using a p t te sv m tr by simp
qed

lemma epoch_cycle_raises:
  assumes "epoch_cycle E epoch s = Inl (e, w)"
  shows "fs w = fs s \<and> saves (trace w) = saves (trace s) \<and>
         data_loads (trace w) = data_loads (trace s) \<and>
         model_built (trace w) = model_built (trace s) \<and>
         (procs s = None \<longrightarrow> calls (trace w) = calls (trace s))"
proof (cases "adjust_learning_rate E (optimizer s) epoch (cfg s)")
  case (Inl x)
  with assms show ?thesis by (auto simp: epoch_cycle_def raise_def world_of_def)
next
  case a: (Inr r)
  obtain lr opt1 where r: "r = (lr, opt1)" by (cases r)
  show ?thesis
  proof (cases "procs s")
    case None
    with assms a r show ?thesis
      by (auto simp: epoch_cycle_def raise_def world_of_def emit_def trace_defs)
  next
    case p: (Some d)
    show ?thesis
    proof (cases "train_ucf24_jhmdb21 E (cfg s) epoch (model s) d opt1")
      case (Inl x)
      with assms a r p show ?thesis
        by (auto simp: epoch_cycle_def raise_def world_of_def emit_def trace_defs)
    next
      case t: (Inr r2)
      obtain m2 opt2 where r2: "r2 = (m2, opt2)" by (cases r2)
      show ?thesis
      proof (cases "test_ucf24_jhmdb21 E (cfg s) epoch m2 d")
        case (Inl x)
        with assms a r p t r2 show ?thesis
          by (auto simp: epoch_cycle_def raise_def world_of_def emit_def trace_defs)
      next
        case te: (Inr score)
        let ?sv = "save_checkpoint E
           \<lparr>ck_epoch = epoch, ck_state_dict = m2, ck_optimizer = opt2, ck_score = score\<rparr>
           (score > best_score s) (BACKUP_DIR (cfg s)) (TRAIN_DATASET (cfg s))
           (DATA_NUM_FRAMES (cfg s)) (fs s)"
        show ?thesis
        proof (cases ?sv)
          case (Inl x)
          with assms a r p t r2 te show ?thesis
            by (cases "score > best_score s")
               (auto simp: epoch_cycle_def raise_def world_of_def emit_def trace_defs Let_def)
        next
          case (Inr files)
          with assms a r p t r2 te show ?thesis
            by (cases "score > best_score s")
               (auto simp: epoch_cycle_def raise_def world_of_def emit_def Let_def)
        qed
      qed
    qed
  qed
qed

lemma epoch_loop_append:
  "epoch_loop E (xs @ ys) s =
     (case epoch_loop E xs s of Inl e \<Rightarrow> Inl e | Inr s1 \<Rightarrow> epoch_loop E ys s1)"
  by (induction xs arbitrary: s) (auto split: sum.splits)

lemma best_after_append:
  "best_after b (xs @ ys) = best_after (best_after b xs) ys"
  by (induction xs arbitrary: b) auto

lemma best_flags_append:
  "best_flags b (xs @ ys) = best_flags b xs @ best_flags (best_after b xs) ys"
  by (induction xs arbitrary: b) auto

lemma best_after_ge: "b \<le> best_after b xs"
proof (induction xs arbitrary: b)
  case Nil
  show ?case by simp
next
  case (Cons x xs)
  have "(if b < x then x else b) \<le> best_after (if b < x then x else b) xs"
    by (rule Cons.IH)
  then show ?case by (simp split: if_splits)
qed

lemma best_after_Max: "best_after b xs = Max (set (b # xs))"
proof (induction xs arbitrary: b)
  case Nil
  show ?case by simp
next
  case (Cons x xs)
  have e: "(if x > b then x else b) = max b x"
    by (simp add: max_def)
  have "best_after b (x # xs) = best_after (max b x) xs"
    by (simp only: best_after.simps e)
  also have "\<dots> = Max (insert (max b x) (set xs))"
    using Cons [of "max b x"] by simp
  also have "\<dots> = Max (set (b # x # xs))"
  proof (cases "xs = []")
    case True
    then show ?thesis by (simp add: max.commute)
  next
    case False
    then show ?thesis by (simp add: max.assoc)
  qed
  finally show ?case .
qed


lemma epoch_loop_returns:
  assumes "epoch_loop E epochs s = Inr s'"
  shows "\<exists>xs svs. length xs = length epochs \<and>
           calls (trace s') = calls (trace s) @ cycles epochs \<and>
           train_calls (trace s') = train_calls (trace s) @ epochs \<and>
           test_calls (trace s') = test_calls (trace s) @ zip epochs xs \<and>
           scores (trace s') = scores (trace s) @ xs \<and>
           saves (trace s') = saves (trace s) @ svs \<and>
           map (\<lambda>sv. ck_epoch (fst sv)) svs = epochs \<and>
           map (\<lambda>sv. ck_score (fst sv)) svs = xs \<and>
           map snd svs = best_flags (best_score s) xs \<and>
           data_loads (trace s') = data_loads (trace s) \<and>
           model_built (trace s') = model_built (trace s) \<and>
           best_score s' = best_after (best_score s) xs \<and>
           cfg s' = cfg s \<and> procs s' = procs s"
  using assms
proof (induction epochs arbitrary: s)
  case Nil
  then show ?case by (simp add: cycles_def)
next
  case (Cons epoch epochs)
  from Cons.prems obtain s1 where c: "epoch_cycle E epoch s = Inr s1"
    and l: "epoch_loop E epochs s1 = Inr s'"
    by (auto split: sum.splits)
  from epoch_cycle_returns [OF c] obtain score where
    1: "calls (trace s1) = calls (trace s) @ [TrainCall epoch, TestCall epoch]"
       "train_calls (trace s1) = train_calls (trace s) @ [epoch]"
       "test_calls (trace s1) = test_calls (trace s) @ [(epoch, score)]"
       "saves (trace s1) = saves (trace s) @
             [(\<lparr>ck_epoch = epoch, ck_state_dict = model s1, ck_optimizer = optimizer s1,
                ck_score = score\<rparr>, score > best_score s)]"
       "data_loads (trace s1) = data_loads (trace s)"
       "model_built (trace s1) = model_built (trace s)"
       "best_score s1 = (if score > best_score s then score else best_score s)"
       "cfg s1 = cfg s" "procs s1 = procs s"
    by blast
  from Cons.IH [OF l] obtain xs svs where
    2: "length xs = length epochs"
       "calls (trace s') = calls (trace s1) @ cycles epochs"
       "train_calls (trace s') = train_calls (trace s1) @ epochs"
       "test_calls (trace s') = test_calls (trace s1) @ zip epochs xs"
       "scores (trace s') = scores (trace s1) @ xs"
       "saves (trace s') = saves (trace s1) @ svs"
       "map (\<lambda>sv. ck_epoch (fst sv)) svs = epochs"
       "map (\<lambda>sv. ck_score (fst sv)) svs = xs"
       "map snd svs = best_flags (best_score s1) xs"
       "data_loads (trace s') = data_loads (trace s1)"
       "model_built (trace s') = model_built (trace s1)"
       "best_score s' = best_after (best_score s1) xs"
       "cfg s' = cfg s1" "procs s' = procs s1"
    by blast
  have sc: "scores (trace s1) = scores (trace s) @ [score]"
    using 1(3) by (simp add: scores_def)
  let ?sv = "(\<lparr>ck_epoch = epoch, ck_state_dict = model s1, ck_optimizer = optimizer s1,
                ck_score = score\<rparr>, score > best_score s)"
  show ?case
    apply (rule exI [of _ "score # xs"], rule exI [of _ "?sv # svs"])
    using 1 2 sc by (simp add: cycles_def)
qed

lemma best_flags_none:
  "\<forall>x\<in>set xs. x \<le> b \<Longrightarrow> best_flags b xs = replicate (length xs) False \<and> best_after b xs = b"
  by (induction xs arbitrary: b) auto

subsection \<open>The steps before the schedule\<close>

lemma create_returns:
  assumes "create E c files = Inr s"
  shows "cfg s = c \<and> best_score s = 0 \<and> procs s = None \<and> fs s = files \<and>
         YOWO E c = Inr (model s) \<and> Adam E (model s) c = Inr (optimizer s) \<and>
         model_built (trace s) \<and> calls (trace s) = [] \<and> train_calls (trace s) = [] \<and>
         test_calls (trace s) = [] \<and> scores (trace s) = [] \<and> saves (trace s) = [] \<and>
         data_loads (trace s) = []"
proof (cases "YOWO E c")
  case (Inl e)
  with assms show ?thesis by (simp add: create_def)
next
  case m: (Inr m)
  show ?thesis
  proof (cases "Adam E m c")
    case (Inl e)
    with assms m show ?thesis by (simp add: create_def Let_def)
  next
    case (Inr opt)
    with assms m show ?thesis
      by (cases "cuda_is_available E") (auto simp: create_def Let_def emit_def trace_defs)
  qed
qed

lemma create_raises:
  assumes "create E c files = Inl (e, w)"
  shows "fs w = files \<and> calls (trace w) = [] \<and> train_calls (trace w) = [] \<and>
         test_calls (trace w) = [] \<and> saves (trace w) = [] \<and> data_loads (trace w) = []"
proof (cases "YOWO E c")
  case (Inl e)
  with assms show ?thesis by (auto simp: create_def trace_defs)
next
  case m: (Inr m)
  show ?thesis
  proof (cases "Adam E m c")
    case (Inl e)
    with assms m show ?thesis
      by (cases "cuda_is_available E") (auto simp: create_def Let_def emit_def trace_defs)
  next
    case (Inr opt)
    with assms m show ?thesis by (simp add: create_def Let_def)
  qed
qed

lemma create_total:
  assumes "YOWO E c = Inr m" and "Adam E m c = Inr opt"
  shows "\<exists>s. create E c files = Inr s"
  using assms by (simp add: create_def Let_def)

lemma load_resume_absent:
  "fs s (TRAIN_RESUME_PATH (cfg s)) = None \<Longrightarrow> load_resume s = Inr s"
  by (simp add: load_resume_def isfile_def)

lemma load_resume_corrupt:
  "fs s (TRAIN_RESUME_PATH (cfg s)) = Some Corrupt \<Longrightarrow>
   load_resume s =
     Inl (UnpicklingError (TRAIN_RESUME_PATH (cfg s)),
          \<lparr>fs = fs s,
           trace = trace s @ [Print Separator,
                              Print (LoadingCheckpoint (TRAIN_RESUME_PATH (cfg s)))]\<rparr>)"
  by (simp add: load_resume_def isfile_def Let_def raise_def emit_def world_of_def)

lemma load_resume_checkpoint:
  "fs s (TRAIN_RESUME_PATH (cfg s)) = Some (Ckpt k) \<Longrightarrow>
   load_resume s =
     Inr (s\<lparr>trace := trace s @
               [Print Separator, Print (LoadingCheckpoint (TRAIN_RESUME_PATH (cfg s))),
                TorchLoad (TRAIN_RESUME_PATH (cfg s)),
                Print (LoadedModelScore (ck_score k)), Print Separator],
            cfg := (cfg s)\<lparr>TRAIN_BEGIN_EPOCH := ck_epoch k + 1\<rparr>,
            best_score := ck_score k,
            model := ck_state_dict k,
            optimizer := ck_optimizer k\<rparr>)"
  by (simp add: load_resume_def isfile_def Let_def emit_def)

lemma file_cases:
  obtains (absent) "files p = None" | (corrupt) "files p = Some Corrupt"
        | (checkpoint) k where "files p = Some (Ckpt k)"
proof (cases "files p")
  case None
  then show ?thesis by (rule absent)
next
  case (Some f)
  then show ?thesis by (cases f) (auto intro: corrupt checkpoint)
qed

lemma load_resume_returns:
  assumes "load_resume s = Inr s'"
  shows "fs s' = fs s \<and> procs s' = procs s \<and>
         calls (trace s') = calls (trace s) \<and> train_calls (trace s') = train_calls (trace s) \<and>
         test_calls (trace s') = test_calls (trace s) \<and> scores (trace s') = scores (trace s) \<and>
         saves (trace s') = saves (trace s) \<and> data_loads (trace s') = data_loads (trace s) \<and>
         model_built (trace s') = model_built (trace s) \<and>
         fs s (TRAIN_RESUME_PATH (cfg s)) \<noteq> Some Corrupt"
proof (cases rule: file_cases [of "fs s" "TRAIN_RESUME_PATH (cfg s)"])
  case absent
  with assms show ?thesis by (simp add: load_resume_absent)
next
  case corrupt
  with assms show ?thesis by (simp add: load_resume_corrupt)
next
  case (checkpoint k)
  from assms have "s' = s\<lparr>trace := trace s @
               [Print Separator, Print (LoadingCheckpoint (TRAIN_RESUME_PATH (cfg s))),
                TorchLoad (TRAIN_RESUME_PATH (cfg s)),
                Print (LoadedModelScore (ck_score k)), Print Separator],
            cfg := (cfg s)\<lparr>TRAIN_BEGIN_EPOCH := ck_epoch k + 1\<rparr>,
            best_score := ck_score k,
            model := ck_state_dict k,
            optimizer := ck_optimizer k\<rparr>"
    by (simp add: load_resume_checkpoint [OF checkpoint])
  with checkpoint show ?thesis by (simp add: trace_defs)
qed

lemma load_resume_raises:
  assumes "load_resume s = Inl (e, w)"
  shows "fs w = fs s \<and> calls (trace w) = calls (trace s) \<and>
         train_calls (trace w) = train_calls (trace s) \<and>
         test_calls (trace w) = test_calls (trace s) \<and>
         saves (trace w) = saves (trace s) \<and> data_loads (trace w) = data_loads (trace s) \<and>
         model_built (trace w) = model_built (trace s) \<and>
         fs s (TRAIN_RESUME_PATH (cfg s)) = Some Corrupt"
proof (cases rule: file_cases [of "fs s" "TRAIN_RESUME_PATH (cfg s)"])
  case absent
  with assms show ?thesis by (simp add: load_resume_absent)
next
  case corrupt
  with assms show ?thesis by (auto simp: load_resume_corrupt trace_defs)
next
  case (checkpoint k)
  with assms show ?thesis by (simp add: load_resume_checkpoint)
qed


lemma select_dataset_invalid:
  assumes "TRAIN_DATASET (cfg s) \<noteq> ''ucf24''" and "TRAIN_DATASET (cfg s) \<noteq> ''jhmdb21''"
    and "TRAIN_DATASET (cfg s) \<noteq> ''ava''"
  shows "select_dataset E s = Inl (AssertionError ''invalid dataset'', world_of s)"
  using assms by (simp add: select_dataset_def raise_def)

lemma select_dataset_ava:
  assumes "TRAIN_DATASET (cfg s) = ''ava''"
  shows "select_dataset E s = Inr (s\<lparr>trace := trace s @ [Print (DatasetIs ''ava'')]\<rparr>)"
  using assms by (simp add: select_dataset_def emit_def)

lemma select_dataset_supported:
  assumes "TRAIN_DATASET (cfg s) = ''ucf24'' \<or> TRAIN_DATASET (cfg s) = ''jhmdb21''"
  shows "select_dataset E s =
           (case load_data E (cfg s) (TRAIN_DATASET (cfg s)) of
              Inl e \<Rightarrow>
                Inl (e, \<lparr>fs = fs s,
                         trace = trace s @ [Print (DatasetIs (TRAIN_DATASET (cfg s)))]\<rparr>)
            | Inr d \<Rightarrow>
                Inr (s\<lparr>trace := trace s @ [Print (DatasetIs (TRAIN_DATASET (cfg s))),
                                           LoadData (TRAIN_DATASET (cfg s))],
                       procs := Some d\<rparr>))"
  using assms
  by (auto simp: select_dataset_def emit_def raise_def world_of_def Let_def split: sum.splits)

lemma dataset_cases:
  obtains (supported) "ds = ''ucf24'' \<or> ds = ''jhmdb21''" | (ava) "ds = ''ava''"
    | (invalid) "ds \<noteq> ''ucf24''" "ds \<noteq> ''jhmdb21''" "ds \<noteq> ''ava''"
  by blast

lemma select_dataset_returns:
  assumes "select_dataset E s = Inr s'"
  shows "cfg s' = cfg s \<and> best_score s' = best_score s \<and> model s' = model s \<and>
         optimizer s' = optimizer s \<and> fs s' = fs s \<and>
         calls (trace s') = calls (trace s) \<and> train_calls (trace s') = train_calls (trace s) \<and>
         test_calls (trace s') = test_calls (trace s) \<and> scores (trace s') = scores (trace s) \<and>
         saves (trace s') = saves (trace s) \<and>
         model_built (trace s') = model_built (trace s) \<and>
         (TRAIN_DATASET (cfg s) = ''ucf24'' \<or> TRAIN_DATASET (cfg s) = ''jhmdb21'' \<or>
          TRAIN_DATASET (cfg s) = ''ava'') \<and>
         (TRAIN_DATASET (cfg s) = ''ava'' \<longrightarrow> procs s' = procs s) \<and>
         (TRAIN_DATASET (cfg s) \<noteq> ''ava'' \<longrightarrow> procs s' \<noteq> None)"
proof (cases rule: dataset_cases [of "TRAIN_DATASET (cfg s)"])
  case supported
  show ?thesis
  proof (cases "load_data E (cfg s) (TRAIN_DATASET (cfg s))")
    case (Inl e)
    with assms supported show ?thesis by (simp add: select_dataset_supported)
  next
    case (Inr d)
    with assms supported
    have "s' = s\<lparr>trace := trace s @ [Print (DatasetIs (TRAIN_DATASET (cfg s))),
                                           LoadData (TRAIN_DATASET (cfg s))],
                       procs := Some d\<rparr>"
      by (simp add: select_dataset_supported)
    with supported show ?thesis by (auto simp: trace_defs)
  qed
next
  case ava
  with assms have "s' = s\<lparr>trace := trace s @ [Print (DatasetIs ''ava'')]\<rparr>"
    by (simp add: select_dataset_ava)
  with ava show ?thesis by (simp add: trace_defs)
next
  case invalid
  with assms show ?thesis by (simp add: select_dataset_invalid)
qed


subsection \<open>The schedule\<close>

lemma schedule_training:
  "\<not> TRAIN_EVALUATE (cfg s) \<Longrightarrow>
   schedule E s = epoch_loop E [TRAIN_BEGIN_EPOCH (cfg s) .. TRAIN_END_EPOCH (cfg s)] s"
  by (simp add: schedule_def)

lemma schedule_evaluate:
  "TRAIN_EVALUATE (cfg s) \<Longrightarrow>
   schedule E s =
     (case procs s of
        None \<Rightarrow> Inl (UnboundLocalError ''test'',
                      \<lparr>fs = fs s, trace = trace s @ [Logging Evaluating]\<rparr>)
      | Some d \<Rightarrow>
         (case test_ucf24_jhmdb21 E (cfg s) 0 (model s) d of
            Inl e \<Rightarrow> Inl (e, \<lparr>fs = fs s, trace = trace s @ [Logging Evaluating]\<rparr>)
          | Inr score \<Rightarrow> Inr (s\<lparr>trace := trace s @ [Logging Evaluating, Test 0 score]\<rparr>)))"
  by (auto simp: schedule_def Let_def emit_def raise_def world_of_def
           split: option.splits sum.splits)

lemma schedule_evaluate_returns:
  assumes "TRAIN_EVALUATE (cfg s)" and "schedule E s = Inr s'"
  shows "\<exists>score. test_calls (trace s') = test_calls (trace s) @ [(0, score)] \<and>
           calls (trace s') = calls (trace s) @ [TestCall 0] \<and>
           train_calls (trace s') = train_calls (trace s) \<and>
           saves (trace s') = saves (trace s) \<and> fs s' = fs s \<and> cfg s' = cfg s \<and>
           best_score s' = best_score s \<and> model s' = model s \<and> optimizer s' = optimizer s"
proof (cases "procs s")
  case None
  with assms show ?thesis by (simp add: schedule_evaluate)
next
  case (Some d)
  show ?thesis
  proof (cases "test_ucf24_jhmdb21 E (cfg s) 0 (model s) d")
    case (Inl e)
    with assms Some show ?thesis by (simp add: schedule_evaluate)
  next
    case (Inr score)
    with assms Some
    have "s' = s\<lparr>trace := trace s @ [Logging Evaluating, Test 0 score]\<rparr>"
      by (simp add: schedule_evaluate)
    then show ?thesis by (simp add: trace_defs)
  qed
qed


lemma main_cases:
  assumes "main E c files = Inr s'"
  obtains s0 s1 s2 where "create E c files = Inr s0" "load_resume s0 = Inr s1"
    "select_dataset E s1 = Inr s2" "schedule E s2 = Inr s'"
  using assms by (auto simp: main_def prepare_def split: sum.splits)

lemma prepare_cases:
  assumes "prepare E c files = Inr s1"
  obtains s0 where "create E c files = Inr s0" "load_resume s0 = Inr s1"
  using assms by (auto simp: prepare_def split: sum.splits)

subsection \<open>Whole runs\<close>



lemma load_resume_cfg:
  assumes "load_resume s = Inr s'"
  shows "cfg s' = (case fs s (TRAIN_RESUME_PATH (cfg s)) of
                     Some (Ckpt k) \<Rightarrow> (cfg s)\<lparr>TRAIN_BEGIN_EPOCH := ck_epoch k + 1\<rparr>
                   | _ \<Rightarrow> cfg s) \<and>
         best_score s' = (case fs s (TRAIN_RESUME_PATH (cfg s)) of
                     Some (Ckpt k) \<Rightarrow> ck_score k
                   | _ \<Rightarrow> best_score s)"
proof (cases rule: file_cases [of "fs s" "TRAIN_RESUME_PATH (cfg s)"])
  case absent
  with assms show ?thesis by (auto simp: load_resume_absent)
next
  case corrupt
  with assms show ?thesis by (simp add: load_resume_corrupt)
next
  case (checkpoint k)
  with assms show ?thesis by (auto simp: load_resume_checkpoint)
qed

lemma prepare_returns:
  assumes "prepare E c files = Inr s1"
  shows "cfg s1 = (case files (TRAIN_RESUME_PATH c) of
                     Some (Ckpt k) \<Rightarrow> c\<lparr>TRAIN_BEGIN_EPOCH := ck_epoch k + 1\<rparr>
                   | _ \<Rightarrow> c) \<and>
         best_score s1 = (case files (TRAIN_RESUME_PATH c) of
                     Some (Ckpt k) \<Rightarrow> ck_score k
                   | _ \<Rightarrow> 0) \<and>
         fs s1 = files \<and> procs s1 = None \<and> model_built (trace s1) \<and>
         calls (trace s1) = [] \<and> train_calls (trace s1) = [] \<and> test_calls (trace s1) = [] \<and>
         scores (trace s1) = [] \<and> saves (trace s1) = [] \<and> data_loads (trace s1) = [] \<and>
         files (TRAIN_RESUME_PATH c) \<noteq> Some Corrupt"
proof -
  from assms obtain s0 where c: "create E c files = Inr s0" and l: "load_resume s0 = Inr s1"
    by (rule prepare_cases)
  from create_returns [OF c] load_resume_returns [OF l] load_resume_cfg [OF l]
  show ?thesis by (auto split: option.splits file_content.splits)
qed

lemma schedule_cfg:
  assumes "schedule E s = Inr s'"
  shows "cfg s' = cfg s"
proof (cases "TRAIN_EVALUATE (cfg s)")
  case True
  from schedule_evaluate_returns [OF True assms] show ?thesis by blast
next
  case False
  with assms epoch_loop_returns [of E _ s s'] show ?thesis
    by (simp add: schedule_training) blast
qed

lemma main_cfg:
  assumes "main E c files = Inr s'"
  shows "cfg s' = (case files (TRAIN_RESUME_PATH c) of
                     Some (Ckpt k) \<Rightarrow> c\<lparr>TRAIN_BEGIN_EPOCH := ck_epoch k + 1\<rparr>
                   | _ \<Rightarrow> c)"
proof -
  from assms obtain s1 s2 where p: "prepare E c files = Inr s1"
    and d: "select_dataset E s1 = Inr s2" and sc: "schedule E s2 = Inr s'"
    by (auto simp: main_def split: sum.splits)
  from prepare_returns [OF p] select_dataset_returns [OF d] schedule_cfg [OF sc]
  show ?thesis by simp
qed



subsection \<open>Evaluating the concrete run\<close>

lemmas run_defs = main_def prepare_def create_def load_resume_def select_dataset_def
  schedule_def epoch_cycle_def emit_def raise_def world_of_def isfile_def demo_env_def
  demo_cfg_def demo_score_def demo_ckpt_def write_slots_def demo_path_def Let_def upto.simps


subsection \<open>Outcomes, prefixes of the loop and the flags\<close>

lemma outcome_simps:
  "outcome (Inl (e, w)) = w" "fs (outcome (Inr s)) = fs s" "trace (outcome (Inr s)) = trace s"
  by (simp_all add: outcome_def world_of_def)


lemma prepare_raises:
  assumes "prepare E c files = Inl (e, w)"
  shows "fs w = files \<and> calls (trace w) = [] \<and> train_calls (trace w) = [] \<and>
         test_calls (trace w) = [] \<and> saves (trace w) = [] \<and> data_loads (trace w) = []"
proof (cases "create E c files")
  case (Inl ew)
  with assms have "create E c files = Inl (e, w)" by (simp add: prepare_def)
  from create_raises [OF this] show ?thesis .
next
  case (Inr s0)
  with assms have l: "load_resume s0 = Inl (e, w)" by (simp add: prepare_def)
  from load_resume_raises [OF l] create_returns [OF Inr] show ?thesis by simp
qed


lemma prepare_checkpoint:
  assumes "files (TRAIN_RESUME_PATH c) = Some (Ckpt k)" and "prepare E c files = Inr s1"
  shows "cfg s1 = c\<lparr>TRAIN_BEGIN_EPOCH := ck_epoch k + 1\<rparr> \<and> best_score s1 = ck_score k \<and>
         model s1 = ck_state_dict k \<and> optimizer s1 = ck_optimizer k"
proof -
  from assms(2) obtain s0 where c: "create E c files = Inr s0" and l: "load_resume s0 = Inr s1"
    by (rule prepare_cases)
  from create_returns [OF c] assms(1)
  have f: "fs s0 (TRAIN_RESUME_PATH (cfg s0)) = Some (Ckpt k)" and c0: "cfg s0 = c" by simp_all
  from l have "s1 = s0\<lparr>trace := trace s0 @
               [Print Separator, Print (LoadingCheckpoint (TRAIN_RESUME_PATH (cfg s0))),
                TorchLoad (TRAIN_RESUME_PATH (cfg s0)),
                Print (LoadedModelScore (ck_score k)), Print Separator],
            cfg := (cfg s0)\<lparr>TRAIN_BEGIN_EPOCH := ck_epoch k + 1\<rparr>,
            best_score := ck_score k,
            model := ck_state_dict k,
            optimizer := ck_optimizer k\<rparr>"
    by (simp add: load_resume_checkpoint [OF f])
  with c0 show ?thesis by simp
qed

lemma main_training_cases:
  assumes "main E c files = Inr s'" and "\<not> TRAIN_EVALUATE c"
  obtains s1 s2 where "prepare E c files = Inr s1" "select_dataset E s1 = Inr s2"
    "epoch_loop E [TRAIN_BEGIN_EPOCH (cfg s1) .. TRAIN_END_EPOCH c] s2 = Inr s'"
proof -
  from assms(1) obtain s1 s2 where p: "prepare E c files = Inr s1"
    and d: "select_dataset E s1 = Inr s2" and sc: "schedule E s2 = Inr s'"
    by (auto simp: main_def split: sum.splits)
  note p1 = prepare_returns [OF p] and d1 = select_dataset_returns [OF d]
  have c2: "cfg s2 = cfg s1" using d1 by simp
  have ev: "\<not> TRAIN_EVALUATE (cfg s2)" and en: "TRAIN_END_EPOCH (cfg s2) = TRAIN_END_EPOCH c"
    using p1 c2 assms(2) by (auto split: option.splits file_content.splits)
  from sc ev have "epoch_loop E [TRAIN_BEGIN_EPOCH (cfg s2) .. TRAIN_END_EPOCH (cfg s2)] s2 = Inr s'"
    by (simp add: schedule_training)
  with c2 en have "epoch_loop E [TRAIN_BEGIN_EPOCH (cfg s1) .. TRAIN_END_EPOCH c] s2 = Inr s'"
    by simp
  with p d that show thesis by blast
qed

lemma epoch_loop_prefix:
  assumes "epoch_loop E (es1 @ es2) s = Inr s'"
  obtains s1 where "epoch_loop E es1 s = Inr s1" "epoch_loop E es2 s1 = Inr s'"
  using assms by (auto simp: epoch_loop_append split: sum.splits)

lemma best_flags_length: "length (best_flags b xs) = length xs"
  by (induction xs arbitrary: b) auto

lemma best_flags_nth:
  "i < length xs \<Longrightarrow> best_flags b xs ! i = (xs ! i > Max (set (b # take i xs)))"
proof (induction xs arbitrary: b i)
  case Nil
  then show ?case by simp
next
  case (Cons x xs)
  show ?case
  proof (cases i)
    case 0
    then show ?thesis by simp
  next
    case (Suc j)
    with Cons.prems have j: "j < length xs" by simp
    let ?b = "if x > b then x else b"
    have "best_flags b (x # xs) ! i = best_flags ?b xs ! j"
      using Suc by simp
    also have "\<dots> = (xs ! j > Max (set (?b # take j xs)))"
      by (rule Cons.IH [OF j])
    also have "Max (set (?b # take j xs)) = best_after ?b (take j xs)"
      by (simp only: best_after_Max)
    also have "\<dots> = best_after b (x # take j xs)" by simp
    also have "\<dots> = Max (set (b # x # take j xs))"
      by (simp only: best_after_Max)
    finally show ?thesis using Suc by simp
  qed
qed

subsection \<open>The slots\<close>

lemma write_slots_latest:
  "write_slots P st b dir ds nf files (P Latest dir ds nf) = Some (Ckpt st)"
  by (simp add: write_slots_def Let_def)

lemma write_slots_best:
  "b \<Longrightarrow> write_slots P st b dir ds nf files (P Best dir ds nf) = Some (Ckpt st)"
  by (simp add: write_slots_def Let_def)

lemma write_slots_not_best:
  "\<not> b \<Longrightarrow> P Best dir ds nf \<noteq> P Latest dir ds nf \<Longrightarrow>
   write_slots P st b dir ds nf files (P Best dir ds nf) = files (P Best dir ds nf)"
  by (simp add: write_slots_def Let_def)

lemma write_slots_other:
  "p \<noteq> P Latest dir ds nf \<Longrightarrow> p \<noteq> P Best dir ds nf \<Longrightarrow>
   write_slots P st b dir ds nf files p = files p"
  by (simp add: write_slots_def Let_def)

lemma demo_saves_as_specified: "saves_as_specified demo_path (demo_env f)"
  by (simp add: saves_as_specified_def demo_env_def)

lemma write_all_best_unchanged:
  assumes "\<forall>sv\<in>set svs. \<not> snd sv" and "P Best dir ds nf \<noteq> P Latest dir ds nf"
  shows "write_all P dir ds nf files svs (P Best dir ds nf) = files (P Best dir ds nf)"
  using assms(1)
proof (induction svs arbitrary: files)
  case Nil
  show ?case by simp
next
  case (Cons sv svs)
  obtain st b where sv: "sv = (st, b)" by (cases sv)
  with Cons.prems have nb: "\<not> b" and rest: "\<forall>sv\<in>set svs. \<not> snd sv" by simp_all
  have "write_all P dir ds nf files (sv # svs) (P Best dir ds nf) =
        write_all P dir ds nf (write_slots P st b dir ds nf files) svs (P Best dir ds nf)"
    by (simp add: sv)
  also have "\<dots> = write_slots P st b dir ds nf files (P Best dir ds nf)"
    by (rule Cons.IH [OF rest])
  also have "\<dots> = files (P Best dir ds nf)"
    using nb assms(2) by (rule write_slots_not_best)
  finally show ?case .
qed

lemma write_all_latest:
  assumes "svs \<noteq> []"
  shows "write_all P dir ds nf files svs (P Latest dir ds nf) = Some (Ckpt (fst (last svs)))"
  using assms
proof (induction svs arbitrary: files)
  case Nil
  then show ?case by simp
next
  case (Cons sv svs)
  obtain st b where sv: "sv = (st, b)" by (cases sv)
  show ?case
  proof (cases "svs = []")
    case True
    then show ?thesis by (simp add: sv write_slots_latest)
  next
    case False
    from Cons.IH [OF False] False show ?thesis by (simp add: sv)
  qed
qed

lemma epoch_loop_fs:
  assumes "epoch_loop E epochs s = Inr s'" and "saves_as_specified P E"
  shows "\<exists>svs. saves (trace s') = saves (trace s) @ svs \<and>
           fs s' = write_all P (BACKUP_DIR (cfg s)) (TRAIN_DATASET (cfg s))
                     (DATA_NUM_FRAMES (cfg s)) (fs s) svs"
  using assms(1)
proof (induction epochs arbitrary: s)
  case Nil
  then show ?case by simp
next
  case (Cons epoch epochs)
  from Cons.prems obtain s1 where c: "epoch_cycle E epoch s = Inr s1"
    and l: "epoch_loop E epochs s1 = Inr s'"
    by (auto split: sum.splits)
  from epoch_cycle_returns [OF c] obtain score where
    sv: "save_checkpoint E
             \<lparr>ck_epoch = epoch, ck_state_dict = model s1, ck_optimizer = optimizer s1,
               ck_score = score\<rparr>
             (score > best_score s) (BACKUP_DIR (cfg s)) (TRAIN_DATASET (cfg s))
             (DATA_NUM_FRAMES (cfg s)) (fs s) = Inr (fs s1)" and
    ss: "saves (trace s1) = saves (trace s) @
             [(\<lparr>ck_epoch = epoch, ck_state_dict = model s1, ck_optimizer = optimizer s1,
                ck_score = score\<rparr>, score > best_score s)]" and
    cf: "cfg s1 = cfg s"
    by blast
  let ?st = "\<lparr>ck_epoch = epoch, ck_state_dict = model s1, ck_optimizer = optimizer s1,
               ck_score = score\<rparr>"
  from assms(2) sv
  have f: "fs s1 = write_slots P ?st (score > best_score s) (BACKUP_DIR (cfg s))
                     (TRAIN_DATASET (cfg s)) (DATA_NUM_FRAMES (cfg s)) (fs s)"
    unfolding saves_as_specified_def by blast
  from Cons.IH [OF l] obtain svs where
    1: "saves (trace s') = saves (trace s1) @ svs"
       "fs s' = write_all P (BACKUP_DIR (cfg s1)) (TRAIN_DATASET (cfg s1))
                     (DATA_NUM_FRAMES (cfg s1)) (fs s1) svs"
    by blast
  show ?case
    apply (rule exI [of _ "(?st, score > best_score s) # svs"])
    using 1 ss cf f by simp
qed

section \<open>The claims\<close>






text \<open>
  Claim C5 says that a run with a dataset name other than \<^verbatim>\<open>ucf24\<close>, \<^verbatim>\<open>jhmdb21\<close>
  and \<^verbatim>\<open>ava\<close> fails before any model is built. The assertion on the name is at
  line 66, after the model (lines 27 to 29), the optimizer and the resume step: on the
  concrete run below the model has been built when the assertion raises.
\<close>

theorem invalid_dataset_counterexample:
  "main (demo_env demo_score) (demo_cfg\<lparr>TRAIN_DATASET := ''kinetics''\<rparr>) Map.empty =
     Inl (AssertionError ''invalid dataset'',
          \<lparr>fs = Map.empty,
           trace = [CreateModel, Logging (TotalParams 7), ManualSeed 42,
                    SetEnviron ''CUDA_VISIBLE_DEVICES'' ''0'', CudaManualSeed 42,
                    CreateOptimizer]\<rparr>) \<and>
   model_built (trace (outcome
     (main (demo_env demo_score) (demo_cfg\<lparr>TRAIN_DATASET := ''kinetics''\<rparr>) Map.empty)))"
  by (simp add: run_defs outcome_def model_built_def)

text \<open>
  Claim C5, amended. A run with such a dataset name never returns. It does what a run
  does up to the resume step (lines 26 to 62) and, if that part has not raised, raises
  the assertion error \<^verbatim>\<open>invalid dataset\<close> with the model built; in every case no data
  is loaded, neither procedure is called, no checkpoint is saved and the file system is
  unchanged.
\<close>

theorem invalid_dataset:
  assumes "TRAIN_DATASET c \<noteq> ''ucf24''" and "TRAIN_DATASET c \<noteq> ''jhmdb21''"
    and "TRAIN_DATASET c \<noteq> ''ava''"
  shows "main E c files =
           (case prepare E c files of
              Inl ew \<Rightarrow> Inl ew
            | Inr s \<Rightarrow> Inl (AssertionError ''invalid dataset'', world_of s)) \<and>
         (\<forall>s. prepare E c files = Inr s \<longrightarrow> model_built (trace s)) \<and>
         returned (main E c files) = None \<and>
         data_loads (trace (outcome (main E c files))) = [] \<and>
         calls (trace (outcome (main E c files))) = [] \<and>
         saves (trace (outcome (main E c files))) = [] \<and>
         fs (outcome (main E c files)) = files"
proof (cases "prepare E c files")
  case (Inl ew)
  obtain e w where ew: "ew = (e, w)" by (cases ew)
  from Inl ew have m: "main E c files = Inl (e, w)" by (simp add: main_def)
  from prepare_raises [of E c files e w] Inl ew show ?thesis
    by (simp add: m outcome_simps returned_def)
next
  case (Inr s)
  note p = prepare_returns [OF Inr]
  have ds: "TRAIN_DATASET (cfg s) = TRAIN_DATASET c"
    using p by (auto split: option.splits file_content.splits)
  have "select_dataset E s = Inl (AssertionError ''invalid dataset'', world_of s)"
    using assms ds by (simp add: select_dataset_invalid)
  with Inr have m: "main E c files = Inl (AssertionError ''invalid dataset'', world_of s)"
    by (simp add: main_def)
  from p show ?thesis
    by (simp add: m Inr outcome_simps returned_def world_of_def)
qed

theorem invalid_dataset_witness:
  "TRAIN_DATASET (demo_cfg\<lparr>TRAIN_DATASET := ''kinetics''\<rparr>) \<noteq> ''ucf24'' \<and>
   TRAIN_DATASET (demo_cfg\<lparr>TRAIN_DATASET := ''kinetics''\<rparr>) \<noteq> ''jhmdb21'' \<and>
   TRAIN_DATASET (demo_cfg\<lparr>TRAIN_DATASET := ''kinetics''\<rparr>) \<noteq> ''ava'' \<and>
   returned (prepare (demo_env demo_score) (demo_cfg\<lparr>TRAIN_DATASET := ''kinetics''\<rparr>)
     Map.empty) \<noteq> None \<and>
   model_built (trace (the (returned
     (prepare (demo_env demo_score) (demo_cfg\<lparr>TRAIN_DATASET := ''kinetics''\<rparr>) Map.empty)))) \<and>
   returned (main (demo_env demo_score) (demo_cfg\<lparr>TRAIN_DATASET := ''kinetics''\<rparr>)
     Map.empty) = None \<and>
   data_loads (trace (outcome
     (main (demo_env demo_score) (demo_cfg\<lparr>TRAIN_DATASET := ''kinetics''\<rparr>) Map.empty))) = []"
proof -
  define C where "C = demo_cfg\<lparr>TRAIN_DATASET := ''kinetics''\<rparr>"
  define S where "S = the (returned (prepare (demo_env demo_score) C Map.empty))"
  have d: "TRAIN_DATASET C \<noteq> ''ucf24''" "TRAIN_DATASET C \<noteq> ''jhmdb21''"
    "TRAIN_DATASET C \<noteq> ''ava''"
    by (simp_all add: C_def)
  have r: "prepare (demo_env demo_score) C Map.empty = Inr S"
    unfolding S_def C_def by (simp add: run_defs returned_def)
  note T = invalid_dataset [OF d, of "demo_env demo_score" Map.empty]
  from T r have b: "model_built (trace S)" by blast
  from T have n: "returned (main (demo_env demo_score) C Map.empty) = None"
    and l: "data_loads (trace (outcome (main (demo_env demo_score) C Map.empty))) = []"
    by blast+
  have p: "returned (prepare (demo_env demo_score) C Map.empty) \<noteq> None"
    by (simp add: r returned_def)
  show ?thesis
    using d p b n l unfolding S_def C_def by blast
qed

text \<open>
  Claim C6 asks that a run with the dataset name \<^verbatim>\<open>ava\<close> fail with an
  unsupported-dataset diagnostic. The assertion of line 66 accepts the name, the branch of
  line 70 does not bind \<^verbatim>\<open>train\<close> and \<^verbatim>\<open>test\<close> for it, and nothing else does. On the
  concrete configuration, the training run raises the unbound-local error for \<^verbatim>\<open>train\<close>
  after the learning rate of the first epoch has been adjusted, the evaluate-only run raises
  it for \<^verbatim>\<open>test\<close>, and the training run whose range is empty returns without any
  error.
\<close>

theorem ava_unresolved:
  "main (demo_env demo_score) (demo_cfg\<lparr>TRAIN_DATASET := ''ava''\<rparr>) Map.empty =
     Inl (UnboundLocalError ''train'',
          \<lparr>fs = Map.empty,
           trace = [CreateModel, Logging (TotalParams 7), ManualSeed 42,
                    SetEnviron ''CUDA_VISIBLE_DEVICES'' ''0'', CudaManualSeed 42,
                    CreateOptimizer, Print (DatasetIs ''ava''),
                    AdjustLR 1 (1 / 10000), Logging (TrainingAtEpoch 1 (1 / 10000))]\<rparr>) \<and>
   main (demo_env demo_score) (demo_cfg\<lparr>TRAIN_DATASET := ''ava'', TRAIN_EVALUATE := True\<rparr>)
       Map.empty =
     Inl (UnboundLocalError ''test'',
          \<lparr>fs = Map.empty,
           trace = [CreateModel, Logging (TotalParams 7), ManualSeed 42,
                    SetEnviron ''CUDA_VISIBLE_DEVICES'' ''0'', CudaManualSeed 42,
                    CreateOptimizer, Print (DatasetIs ''ava''), Logging Evaluating]\<rparr>) \<and>
   main (demo_env demo_score) (demo_cfg\<lparr>TRAIN_DATASET := ''ava'', TRAIN_BEGIN_EPOCH := 4\<rparr>)
       Map.empty =
     Inr \<lparr>fs = Map.empty,
          trace = [CreateModel, Logging (TotalParams 7), ManualSeed 42,
                   SetEnviron ''CUDA_VISIBLE_DEVICES'' ''0'', CudaManualSeed 42,
                   CreateOptimizer, Print (DatasetIs ''ava'')],
          cfg = demo_cfg\<lparr>TRAIN_DATASET := ''ava'', TRAIN_BEGIN_EPOCH := 4\<rparr>,
          model = 0, optimizer = 0, best_score = 0, procs = None\<rparr>"
  by (simp add: run_defs)



text \<open>
  Claim C9 says that no operation of \<^verbatim>\<open>main\<close> mutates a field of the configuration
  object. Line 54 assigns \<^verbatim>\<open>cfg.TRAIN.BEGIN_EPOCH\<close>: resuming the concrete run from a
  checkpoint of epoch 1 leaves the begin epoch 2 in a configuration that said 1.
\<close>

theorem config_mutated_counterexample:
  "map_option cfg (returned
     (main (demo_env demo_score) demo_cfg [''r'' \<mapsto> Ckpt (demo_ckpt (1 / 2))])) =
     Some (demo_cfg\<lparr>TRAIN_BEGIN_EPOCH := 2\<rparr>) \<and>
   demo_cfg\<lparr>TRAIN_BEGIN_EPOCH := 2\<rparr> \<noteq> demo_cfg"
proof -
  have "TRAIN_BEGIN_EPOCH (demo_cfg\<lparr>TRAIN_BEGIN_EPOCH := 2\<rparr>) \<noteq> TRAIN_BEGIN_EPOCH demo_cfg"
    by (simp add: demo_cfg_def)
  then have "demo_cfg\<lparr>TRAIN_BEGIN_EPOCH := 2\<rparr> \<noteq> demo_cfg" by metis
  moreover have "map_option cfg (returned
     (main (demo_env demo_score) demo_cfg [''r'' \<mapsto> Ckpt (demo_ckpt (1 / 2))])) =
     Some (demo_cfg\<lparr>TRAIN_BEGIN_EPOCH := 2\<rparr>)"
    by (simp add: run_defs returned_def)
  ultimately show ?thesis by simp
qed

text \<open>
  Claim C9, amended. The only assignment to the configuration object is that of the resume
  step, which, when it loads a checkpoint, sets \<^verbatim>\<open>TRAIN.BEGIN_EPOCH\<close> to the
  checkpoint's epoch plus one; every other field keeps its value through the whole run, and
  all of them do when no checkpoint is loaded. Creation, dataset selection and the
  schedule leave the object as they find it. (The collaborators receive the object; here
  they receive its value, so that a collaborator assigning to it is outside this
  statement.)
\<close>

theorem config_only_begin_epoch:
  "(\<forall>s'. main E c files = Inr s' \<longrightarrow>
      cfg s' = (case files (TRAIN_RESUME_PATH c) of
                  Some (Ckpt k) \<Rightarrow> c\<lparr>TRAIN_BEGIN_EPOCH := ck_epoch k + 1\<rparr>
                | _ \<Rightarrow> c)) \<and>
   (\<forall>s0. create E c files = Inr s0 \<longrightarrow> cfg s0 = c) \<and>
   (\<forall>s'. load_resume s = Inr s' \<longrightarrow>
      cfg s' = (case fs s (TRAIN_RESUME_PATH (cfg s)) of
                  Some (Ckpt k) \<Rightarrow> (cfg s)\<lparr>TRAIN_BEGIN_EPOCH := ck_epoch k + 1\<rparr>
                | _ \<Rightarrow> cfg s)) \<and>
   (\<forall>s'. select_dataset E s = Inr s' \<longrightarrow> cfg s' = cfg s) \<and>
   (\<forall>s'. schedule E s = Inr s' \<longrightarrow> cfg s' = cfg s)"
  using main_cfg create_returns load_resume_cfg select_dataset_returns schedule_cfg
  by blast

theorem config_only_begin_epoch_witness:
  "returned (main (demo_env demo_score) demo_cfg [''r'' \<mapsto> Ckpt (demo_ckpt (1 / 2))]) \<noteq> None \<and>
   cfg (the (returned
     (main (demo_env demo_score) demo_cfg [''r'' \<mapsto> Ckpt (demo_ckpt (1 / 2))]))) =
     demo_cfg\<lparr>TRAIN_BEGIN_EPOCH := 2\<rparr> \<and>
   returned (main (demo_env demo_score) demo_cfg Map.empty) \<noteq> None \<and>
   cfg (the (returned (main (demo_env demo_score) demo_cfg Map.empty))) = demo_cfg"
proof -
  define F :: "(nat, nat) files" where "F = [''r'' \<mapsto> Ckpt (demo_ckpt (1 / 2))]"
  define S where "S = the (returned (main (demo_env demo_score) demo_cfg F))"
  define S0 where "S0 = the (returned (main (demo_env demo_score) demo_cfg Map.empty))"
  have r: "main (demo_env demo_score) demo_cfg F = Inr S"
    unfolding S_def F_def by (simp add: run_defs returned_def)
  have r0: "main (demo_env demo_score) demo_cfg Map.empty = Inr S0"
    unfolding S0_def by (simp add: run_defs returned_def)
  have f: "F (TRAIN_RESUME_PATH demo_cfg) = Some (Ckpt (demo_ckpt (1 / 2)))"
    by (simp add: F_def demo_cfg_def)
  from config_only_begin_epoch [of "demo_env demo_score" demo_cfg F] r
  have "cfg S = (case F (TRAIN_RESUME_PATH demo_cfg) of
                  Some (Ckpt k) \<Rightarrow> demo_cfg\<lparr>TRAIN_BEGIN_EPOCH := ck_epoch k + 1\<rparr>
                | _ \<Rightarrow> demo_cfg)" by blast
  with f have c: "cfg S = demo_cfg\<lparr>TRAIN_BEGIN_EPOCH := 2\<rparr>"
    by (simp add: demo_ckpt_def)
  from config_only_begin_epoch [of "demo_env demo_score" demo_cfg Map.empty] r0
  have "cfg S0 = (case (Map.empty :: (nat, nat) files) (TRAIN_RESUME_PATH demo_cfg) of
                  Some (Ckpt k) \<Rightarrow> demo_cfg\<lparr>TRAIN_BEGIN_EPOCH := ck_epoch k + 1\<rparr>
                | _ \<Rightarrow> demo_cfg)" by blast
  then have c0: "cfg S0 = demo_cfg" by simp
  have n: "returned (main (demo_env demo_score) demo_cfg F) \<noteq> None"
    "returned (main (demo_env demo_score) demo_cfg Map.empty) \<noteq> None"
    by (simp_all add: r r0 returned_def)
  show ?thesis using n c c0 unfolding S_def S0_def F_def by blast
qed

text \<open>
  Claim C2 says that a resume from a checkpoint with epoch \<open>k\<close> and score \<open>s\<close> starts
  at epoch \<open>k + 1\<close>, takes \<open>s\<close> as the best score, which is never lower than the 0 of a
  fresh run, and replaces model and optimizer state by the stored ones. Line 55 assigns
  the stored score as it is: with a stored score of \<open>-1\<close> the best score after the resume
  step is \<open>-1\<close>.
\<close>

theorem resume_score_counterexample:
  "map_option best_score (returned
     (prepare (demo_env demo_score) demo_cfg [''r'' \<mapsto> Ckpt (demo_ckpt (- 1))])) = Some (- 1) \<and>
   (- 1 :: real) < 0"
  by (simp add: run_defs returned_def)

text \<open>
  Claim C2, amended. When the resume path names a checkpoint with epoch \<open>k\<close> and score
  \<open>s\<close>, the state after the resume step has the begin epoch \<open>k + 1\<close> (a training run
  that returns has trained exactly the epochs from \<open>k + 1\<close> to the end epoch), the best
  score \<open>s\<close> as stored, negative exactly when \<open>s\<close> is, and the stored model parameters
  and optimizer state in place of the initialised ones, of which nothing remains. The
  step is reached whenever model and optimizer construction return.
\<close>

theorem resume_restores:
  assumes "files (TRAIN_RESUME_PATH c) = Some (Ckpt k)"
  shows "(\<forall>s1. prepare E c files = Inr s1 \<longrightarrow>
            cfg s1 = c\<lparr>TRAIN_BEGIN_EPOCH := ck_epoch k + 1\<rparr> \<and>
            best_score s1 = ck_score k \<and>
            model s1 = ck_state_dict k \<and> optimizer s1 = ck_optimizer k \<and>
            (best_score s1 < 0 \<longleftrightarrow> ck_score k < 0)) \<and>
         (\<forall>s'. main E c files = Inr s' \<and> \<not> TRAIN_EVALUATE c \<longrightarrow>
            train_calls (trace s') = [ck_epoch k + 1 .. TRAIN_END_EPOCH c]) \<and>
         (\<forall>m opt. YOWO E c = Inr m \<and> Adam E m c = Inr opt \<longrightarrow>
            (\<exists>s1. prepare E c files = Inr s1))"
proof (intro conjI allI impI)
  fix s1
  assume p: "prepare E c files = Inr s1"
  from prepare_checkpoint [OF assms p]
  show "cfg s1 = c\<lparr>TRAIN_BEGIN_EPOCH := ck_epoch k + 1\<rparr>" "best_score s1 = ck_score k"
    "model s1 = ck_state_dict k" "optimizer s1 = ck_optimizer k"
    "best_score s1 < 0 \<longleftrightarrow> ck_score k < 0"
    by simp_all
next
  fix s'
  assume "main E c files = Inr s' \<and> \<not> TRAIN_EVALUATE c"
  then obtain s1 s2 where p: "prepare E c files = Inr s1"
    and d: "select_dataset E s1 = Inr s2"
    and l: "epoch_loop E [TRAIN_BEGIN_EPOCH (cfg s1) .. TRAIN_END_EPOCH c] s2 = Inr s'"
    by (auto elim: main_training_cases)
  from prepare_checkpoint [OF assms p] have b: "TRAIN_BEGIN_EPOCH (cfg s1) = ck_epoch k + 1"
    by simp
  from epoch_loop_returns [OF l] prepare_returns [OF p] select_dataset_returns [OF d] b
  show "train_calls (trace s') = [ck_epoch k + 1 .. TRAIN_END_EPOCH c]" by auto
next
  fix m opt
  assume "YOWO E c = Inr m \<and> Adam E m c = Inr opt"
  then have "YOWO E c = Inr m" and "Adam E m c = Inr opt" by simp_all
  from create_total [OF this] obtain s0 where c: "create E c files = Inr s0" by blast
  from create_returns [OF c] assms
  have "fs s0 (TRAIN_RESUME_PATH (cfg s0)) = Some (Ckpt k)" by simp
  from load_resume_checkpoint [OF this] c show "\<exists>s1. prepare E c files = Inr s1"
    by (simp add: prepare_def)
qed

theorem resume_restores_witness:
  "([''r'' \<mapsto> Ckpt (demo_ckpt (1 / 2))] :: (nat, nat) files) (TRAIN_RESUME_PATH demo_cfg) =
     Some (Ckpt (demo_ckpt (1 / 2))) \<and>
   \<not> TRAIN_EVALUATE demo_cfg \<and>
   returned (main (demo_env demo_score) demo_cfg [''r'' \<mapsto> Ckpt (demo_ckpt (1 / 2))]) \<noteq> None \<and>
   train_calls (trace (the (returned
     (main (demo_env demo_score) demo_cfg [''r'' \<mapsto> Ckpt (demo_ckpt (1 / 2))])))) = [2, 3] \<and>
   returned (prepare (demo_env demo_score) demo_cfg [''r'' \<mapsto> Ckpt (demo_ckpt (1 / 2))])
     \<noteq> None \<and>
   best_score (the (returned
     (prepare (demo_env demo_score) demo_cfg [''r'' \<mapsto> Ckpt (demo_ckpt (1 / 2))]))) = 1 / 2 \<and>
   model (the (returned
     (prepare (demo_env demo_score) demo_cfg [''r'' \<mapsto> Ckpt (demo_ckpt (1 / 2))]))) = 5"
proof -
  define F :: "(nat, nat) files" where "F = [''r'' \<mapsto> Ckpt (demo_ckpt (1 / 2))]"
  define S where "S = the (returned (main (demo_env demo_score) demo_cfg F))"
  define S1 where "S1 = the (returned (prepare (demo_env demo_score) demo_cfg F))"
  have f: "F (TRAIN_RESUME_PATH demo_cfg) = Some (Ckpt (demo_ckpt (1 / 2)))"
    by (simp add: F_def demo_cfg_def)
  have e: "\<not> TRAIN_EVALUATE demo_cfg" by (simp add: demo_cfg_def)
  have r: "main (demo_env demo_score) demo_cfg F = Inr S"
    unfolding S_def F_def by (simp add: run_defs returned_def)
  have r1: "prepare (demo_env demo_score) demo_cfg F = Inr S1"
    unfolding S1_def F_def by (simp add: run_defs returned_def)
  note T = resume_restores [where files = F and c = demo_cfg and E = "demo_env demo_score",
      OF f]
  from T r e have "train_calls (trace S) =
      [ck_epoch (demo_ckpt (1 / 2)) + 1 .. TRAIN_END_EPOCH demo_cfg]" by blast
  then have t: "train_calls (trace S) = [2, 3]"
    by (simp add: demo_ckpt_def demo_cfg_def upto.simps)
  from T r1 have "best_score S1 = ck_score (demo_ckpt (1 / 2))"
    and "model S1 = ck_state_dict (demo_ckpt (1 / 2))" by blast+
  then have b: "best_score S1 = 1 / 2" and m: "model S1 = 5"
    by (simp_all add: demo_ckpt_def)
  have n: "returned (main (demo_env demo_score) demo_cfg F) \<noteq> None"
    "returned (prepare (demo_env demo_score) demo_cfg F) \<noteq> None"
    by (simp_all add: r r1 returned_def)
  show ?thesis using f e n t b m unfolding S_def S1_def F_def by blast
qed

text \<open>
  Claim C3. The best score is 0 when the loop starts, or the score of the checkpoint the
  run resumed from. At every point of the loop (after the epochs \<open>es1\<close>, whatever
  epochs \<open>es2\<close> follow) it is the maximum of that seed and of the evaluation scores seen
  so far; the flag \<^verbatim>\<open>is_best\<close> given to \<^verbatim>\<open>save_checkpoint\<close> for an epoch is true
  exactly when the epoch's score is strictly greater than the maximum of the seed and of
  the earlier scores, so that a tie neither changes the best score nor marks the epoch as
  best; and the best score never decreases.
\<close>

theorem best_score_running_maximum:
  "(\<forall>s1. prepare E c files = Inr s1 \<longrightarrow>
      best_score s1 = (case files (TRAIN_RESUME_PATH c) of
                         Some (Ckpt k) \<Rightarrow> ck_score k
                       | _ \<Rightarrow> 0)) \<and>
   (\<forall>s'. epoch_loop E (es1 @ es2) s = Inr s' \<longrightarrow>
      (\<exists>s1 xs flags.
         epoch_loop E es1 s = Inr s1 \<and> epoch_loop E es2 s1 = Inr s' \<and>
         scores (trace s1) = scores (trace s) @ xs \<and> length xs = length es1 \<and>
         map snd (saves (trace s1)) = map snd (saves (trace s)) @ flags \<and>
         length flags = length es1 \<and>
         (\<forall>i<length es1. flags ! i = (xs ! i > Max (set (best_score s # take i xs)))) \<and>
         best_score s1 = Max (set (best_score s # xs)) \<and>
         best_score s \<le> best_score s1 \<and> best_score s1 \<le> best_score s'))"
proof (intro conjI allI impI)
  fix s1
  assume "prepare E c files = Inr s1"
  from prepare_returns [OF this]
  show "best_score s1 = (case files (TRAIN_RESUME_PATH c) of
                         Some (Ckpt k) \<Rightarrow> ck_score k
                       | _ \<Rightarrow> 0)" by simp
next
  fix s'
  assume "epoch_loop E (es1 @ es2) s = Inr s'"
  then obtain s1 where l1: "epoch_loop E es1 s = Inr s1" and l2: "epoch_loop E es2 s1 = Inr s'"
    by (rule epoch_loop_prefix)
  from epoch_loop_returns [OF l1] obtain xs svs where
    1: "length xs = length es1" "scores (trace s1) = scores (trace s) @ xs"
       "saves (trace s1) = saves (trace s) @ svs"
       "map snd svs = best_flags (best_score s) xs"
       "best_score s1 = best_after (best_score s) xs"
    by blast
  from epoch_loop_returns [OF l2] obtain ys where
    2: "best_score s' = best_after (best_score s1) ys"
    by blast
  let ?flags = "best_flags (best_score s) xs"
  have a: "map snd (saves (trace s1)) = map snd (saves (trace s)) @ ?flags"
    using 1 by simp
  have b: "length ?flags = length es1" using 1 by (simp add: best_flags_length)
  have c: "\<forall>i<length es1. ?flags ! i = (xs ! i > Max (set (best_score s # take i xs)))"
    using 1(1) by (simp add: best_flags_nth)
  have d: "best_score s1 = Max (set (best_score s # xs))"
    using 1 by (simp only: best_after_Max)
  have e: "best_score s \<le> best_score s1" using 1 best_after_ge by simp
  have f: "best_score s1 \<le> best_score s'" using 2 best_after_ge by simp
  from l1 l2 1(1,2) a b c d e f
  show "\<exists>s1 xs flags.
         epoch_loop E es1 s = Inr s1 \<and> epoch_loop E es2 s1 = Inr s' \<and>
         scores (trace s1) = scores (trace s) @ xs \<and> length xs = length es1 \<and>
         map snd (saves (trace s1)) = map snd (saves (trace s)) @ flags \<and>
         length flags = length es1 \<and>
         (\<forall>i<length es1. flags ! i = (xs ! i > Max (set (best_score s # take i xs)))) \<and>
         best_score s1 = Max (set (best_score s # xs)) \<and>
         best_score s \<le> best_score s1 \<and> best_score s1 \<le> best_score s'"
    by blast
qed


theorem best_score_running_maximum_witness:
  "returned (prepare (demo_env demo_score) demo_cfg Map.empty) \<noteq> None \<and>
   best_score (the (returned (prepare (demo_env demo_score) demo_cfg Map.empty))) = 0 \<and>
   returned (epoch_loop (demo_env demo_score) ([1, 2] @ [3]) demo_loop_state) \<noteq> None \<and>
   scores (trace (the (returned
     (epoch_loop (demo_env demo_score) [1, 2] demo_loop_state)))) = [1 / 2, 1 / 2] \<and>
   best_score (the (returned
     (epoch_loop (demo_env demo_score) [1, 2] demo_loop_state))) = 1 / 2 \<and>
   map snd (saves (trace (the (returned
     (epoch_loop (demo_env demo_score) [1, 2] demo_loop_state))))) ! 0 \<and>
   \<not> map snd (saves (trace (the (returned
     (epoch_loop (demo_env demo_score) [1, 2] demo_loop_state))))) ! 1 \<and>
   best_score (the (returned (epoch_loop (demo_env demo_score) [1, 2] demo_loop_state)))
     \<le> best_score (the (returned
           (epoch_loop (demo_env demo_score) ([1, 2] @ [3]) demo_loop_state)))"
proof -
  define S' where
    "S' = the (returned (epoch_loop (demo_env demo_score) ([1, 2] @ [3]) demo_loop_state))"
  define S1 where
    "S1 = the (returned (epoch_loop (demo_env demo_score) [1, 2] demo_loop_state))"
  have r: "epoch_loop (demo_env demo_score) ([1, 2] @ [3]) demo_loop_state = Inr S'"
    unfolding S'_def by (simp add: run_defs returned_def demo_loop_state_def)
  have r1: "epoch_loop (demo_env demo_score) [1, 2] demo_loop_state = Inr S1"
    unfolding S1_def by (simp add: run_defs returned_def demo_loop_state_def)
  have sc: "scores (trace S1) = [1 / 2, 1 / 2]"
    unfolding S1_def by (simp add: run_defs returned_def demo_loop_state_def trace_defs)
  have i: "scores (trace demo_loop_state) = []" "saves (trace demo_loop_state) = []"
    "best_score demo_loop_state = 0"
    by (simp_all add: demo_loop_state_def trace_defs)
  define S0 where "S0 = the (returned (prepare (demo_env demo_score) demo_cfg Map.empty))"
  have r0: "prepare (demo_env demo_score) demo_cfg Map.empty = Inr S0"
    unfolding S0_def by (simp add: run_defs returned_def)
  note T = best_score_running_maximum
    [of "demo_env demo_score" demo_cfg Map.empty "[1, 2]" "[3]" demo_loop_state]
  from T r0 have "best_score S0 =
      (case (Map.empty :: (nat, nat) files) (TRAIN_RESUME_PATH demo_cfg) of
         Some (Ckpt k) \<Rightarrow> ck_score k | _ \<Rightarrow> 0)" by blast
  then have b0: "best_score S0 = 0" by simp
  have n0: "returned (prepare (demo_env demo_score) demo_cfg Map.empty) \<noteq> None"
    by (simp only: r0 returned_def sum.case option.distinct not_False_eq_True)
  from T r
  obtain s1 xs flags where
    l: "epoch_loop (demo_env demo_score) [1, 2] demo_loop_state = Inr s1" and
    x: "scores (trace s1) = scores (trace demo_loop_state) @ xs" and
    f: "map snd (saves (trace s1)) = map snd (saves (trace demo_loop_state)) @ flags" and
    n: "\<forall>i<length [1, 2 :: int].
          flags ! i = (xs ! i > Max (set (best_score demo_loop_state # take i xs)))" and
    b: "best_score s1 = Max (set (best_score demo_loop_state # xs))" and
    m: "best_score s1 \<le> best_score S'"
    by blast
  from l r1 have s1: "s1 = S1" by simp
  from x sc i s1 have xs: "xs = [1 / 2, 1 / 2]" by simp
  from b xs i s1 have b1: "best_score S1 = 1 / 2" by simp
  from f i s1 have fl: "map snd (saves (trace S1)) = flags" by simp
  from n have "flags ! 0 = (xs ! 0 > Max (set (best_score demo_loop_state # take 0 xs)))"
    and "flags ! 1 = (xs ! 1 > Max (set (best_score demo_loop_state # take 1 xs)))"
    by simp_all
  with xs i have "flags ! 0" and "\<not> flags ! 1" by simp_all
  with fl have f0: "map snd (saves (trace S1)) ! 0" and f1: "\<not> map snd (saves (trace S1)) ! 1"
    by simp_all
  have nn: "returned (epoch_loop (demo_env demo_score) ([1, 2] @ [3]) demo_loop_state) \<noteq> None"
    by (simp only: r returned_def sum.case option.distinct not_False_eq_True)
  from m s1 have m1: "best_score S1 \<le> best_score S'" by simp
  show ?thesis using n0 b0 nn sc b1 f0 f1 m1 unfolding S0_def S'_def S1_def by blast
qed

text \<open>
  Claim C8. An epoch that completes ends with one call of \<^verbatim>\<open>save_checkpoint\<close>, given
  the record made of the epoch's number, the model parameters and the optimizer state as
  the epoch's training left them and the epoch's evaluation score, together with the
  epoch's flag \<^verbatim>\<open>is_best\<close>. With \<^verbatim>\<open>save_checkpoint\<close> as the specification describes
  it, that record is then in the "latest" slot, whatever the flag; it is in the "best"
  slot too when the flag is set; when the flag is not set the "best" slot keeps what it
  had (the two slots having different names); and no other file changes.
\<close>

theorem checkpoint_each_epoch:
  assumes "epoch_cycle E epoch s = Inr s'" and "saves_as_specified path_of E"
  shows "\<exists>score lr opt1 d st.
           adjust_learning_rate E (optimizer s) epoch (cfg s) = Inr (lr, opt1) \<and>
           procs s = Some d \<and>
           train_ucf24_jhmdb21 E (cfg s) epoch (model s) d opt1 = Inr (model s', optimizer s') \<and>
           test_ucf24_jhmdb21 E (cfg s) epoch (model s') d = Inr score \<and>
           st = \<lparr>ck_epoch = epoch, ck_state_dict = model s', ck_optimizer = optimizer s',
                 ck_score = score\<rparr> \<and>
           saves (trace s') = saves (trace s) @ [(st, score > best_score s)] \<and>
           fs s' (path_of Latest (BACKUP_DIR (cfg s)) (TRAIN_DATASET (cfg s))
                   (DATA_NUM_FRAMES (cfg s))) = Some (Ckpt st) \<and>
           (score > best_score s \<longrightarrow>
              fs s' (path_of Best (BACKUP_DIR (cfg s)) (TRAIN_DATASET (cfg s))
                      (DATA_NUM_FRAMES (cfg s))) = Some (Ckpt st)) \<and>
           (\<not> score > best_score s \<and>
            path_of Best (BACKUP_DIR (cfg s)) (TRAIN_DATASET (cfg s)) (DATA_NUM_FRAMES (cfg s)) \<noteq>
            path_of Latest (BACKUP_DIR (cfg s)) (TRAIN_DATASET (cfg s)) (DATA_NUM_FRAMES (cfg s)) \<longrightarrow>
              fs s' (path_of Best (BACKUP_DIR (cfg s)) (TRAIN_DATASET (cfg s))
                      (DATA_NUM_FRAMES (cfg s))) =
              fs s (path_of Best (BACKUP_DIR (cfg s)) (TRAIN_DATASET (cfg s))
                      (DATA_NUM_FRAMES (cfg s)))) \<and>
           (\<forall>p. p \<noteq> path_of Latest (BACKUP_DIR (cfg s)) (TRAIN_DATASET (cfg s))
                        (DATA_NUM_FRAMES (cfg s)) \<and>
                p \<noteq> path_of Best (BACKUP_DIR (cfg s)) (TRAIN_DATASET (cfg s))
                        (DATA_NUM_FRAMES (cfg s)) \<longrightarrow> fs s' p = fs s p)"
proof -
  let ?dir = "BACKUP_DIR (cfg s)" and ?ds = "TRAIN_DATASET (cfg s)"
    and ?nf = "DATA_NUM_FRAMES (cfg s)"
  from epoch_cycle_returns [OF assms(1)] obtain score lr opt1 d where
    a: "adjust_learning_rate E (optimizer s) epoch (cfg s) = Inr (lr, opt1)" and
    p: "procs s = Some d" and
    t: "train_ucf24_jhmdb21 E (cfg s) epoch (model s) d opt1 = Inr (model s', optimizer s')" and
    te: "test_ucf24_jhmdb21 E (cfg s) epoch (model s') d = Inr score" and
    sv: "save_checkpoint E
             \<lparr>ck_epoch = epoch, ck_state_dict = model s', ck_optimizer = optimizer s',
               ck_score = score\<rparr>
             (score > best_score s) ?dir ?ds ?nf (fs s) = Inr (fs s')" and
    ss: "saves (trace s') = saves (trace s) @
             [(\<lparr>ck_epoch = epoch, ck_state_dict = model s', ck_optimizer = optimizer s',
                ck_score = score\<rparr>, score > best_score s)]"
    by blast
  let ?st = "\<lparr>ck_epoch = epoch, ck_state_dict = model s', ck_optimizer = optimizer s',
               ck_score = score\<rparr>"
  from assms(2) sv have f: "fs s' = write_slots path_of ?st (score > best_score s) ?dir ?ds ?nf (fs s)"
    unfolding saves_as_specified_def by blast
  have 1: "fs s' (path_of Latest ?dir ?ds ?nf) = Some (Ckpt ?st)"
    by (simp only: f write_slots_latest)
  have 2: "score > best_score s \<longrightarrow> fs s' (path_of Best ?dir ?ds ?nf) = Some (Ckpt ?st)"
    by (simp add: f write_slots_best)
  have 3: "\<not> score > best_score s \<and> path_of Best ?dir ?ds ?nf \<noteq> path_of Latest ?dir ?ds ?nf \<longrightarrow>
           fs s' (path_of Best ?dir ?ds ?nf) = fs s (path_of Best ?dir ?ds ?nf)"
    by (simp add: f write_slots_not_best)
  have 4: "\<forall>p. p \<noteq> path_of Latest ?dir ?ds ?nf \<and> p \<noteq> path_of Best ?dir ?ds ?nf \<longrightarrow>
            fs s' p = fs s p"
    by (simp add: f write_slots_other)
  from a p t te ss 1 2 3 4 show ?thesis by blast
qed


theorem checkpoint_each_epoch_witness:
  "saves_as_specified demo_path (demo_env demo_score) \<and>
   returned (epoch_cycle (demo_env demo_score) 1 demo_loop_state) \<noteq> None \<and>
   saves (trace (the (returned (epoch_cycle (demo_env demo_score) 1 demo_loop_state)))) =
     [(\<lparr>ck_epoch = 1, ck_state_dict = 1, ck_optimizer = 1, ck_score = 1 / 2\<rparr>, True)] \<and>
   fs (the (returned (epoch_cycle (demo_env demo_score) 1 demo_loop_state)))
      (demo_path Latest ''b'' ''ucf24'' 16) =
     Some (Ckpt \<lparr>ck_epoch = 1, ck_state_dict = 1, ck_optimizer = 1, ck_score = 1 / 2\<rparr>) \<and>
   fs (the (returned (epoch_cycle (demo_env demo_score) 1 demo_loop_state)))
      (demo_path Best ''b'' ''ucf24'' 16) =
     Some (Ckpt \<lparr>ck_epoch = 1, ck_state_dict = 1, ck_optimizer = 1, ck_score = 1 / 2\<rparr>)"
proof -
  define S where "S = the (returned (epoch_cycle (demo_env demo_score) 1 demo_loop_state))"
  have r: "epoch_cycle (demo_env demo_score) 1 demo_loop_state = Inr S"
    unfolding S_def by (simp add: run_defs returned_def demo_loop_state_def)
  have m: "model S = 1" "optimizer S = 1"
    unfolding S_def by (simp_all add: run_defs returned_def demo_loop_state_def)
  have i: "saves (trace demo_loop_state) = []" "best_score demo_loop_state = 0"
    "BACKUP_DIR (cfg demo_loop_state) = ''b''" "TRAIN_DATASET (cfg demo_loop_state) = ''ucf24''"
    "DATA_NUM_FRAMES (cfg demo_loop_state) = 16"
    by (simp_all add: demo_loop_state_def demo_cfg_def trace_defs)
  from checkpoint_each_epoch [OF r demo_saves_as_specified]
  obtain score d st where
    te: "test_ucf24_jhmdb21 (demo_env demo_score) (cfg demo_loop_state) 1 (model S) d = Inr score"
    and st: "st = \<lparr>ck_epoch = 1, ck_state_dict = model S, ck_optimizer = optimizer S,
                 ck_score = score\<rparr>"
    and ss: "saves (trace S) = saves (trace demo_loop_state) @ [(st, score > best_score demo_loop_state)]"
    and la: "fs S (demo_path Latest (BACKUP_DIR (cfg demo_loop_state))
                   (TRAIN_DATASET (cfg demo_loop_state)) (DATA_NUM_FRAMES (cfg demo_loop_state))) =
             Some (Ckpt st)"
    and be: "score > best_score demo_loop_state \<longrightarrow>
             fs S (demo_path Best (BACKUP_DIR (cfg demo_loop_state))
                   (TRAIN_DATASET (cfg demo_loop_state)) (DATA_NUM_FRAMES (cfg demo_loop_state))) =
             Some (Ckpt st)"
    by blast
  from te have sc: "score = 1 / 2" by (simp add: demo_env_def demo_score_def)
  from st sc m have st': "st = \<lparr>ck_epoch = 1, ck_state_dict = 1, ck_optimizer = 1, ck_score = 1 / 2\<rparr>"
    by simp
  from ss i sc st' have 1: "saves (trace S) =
     [(\<lparr>ck_epoch = 1, ck_state_dict = 1, ck_optimizer = 1, ck_score = 1 / 2\<rparr>, True)]"
    by simp
  from la i st' have 2: "fs S (demo_path Latest ''b'' ''ucf24'' 16) =
     Some (Ckpt \<lparr>ck_epoch = 1, ck_state_dict = 1, ck_optimizer = 1, ck_score = 1 / 2\<rparr>)"
    by simp
  from be i sc st' have 3: "fs S (demo_path Best ''b'' ''ucf24'' 16) =
     Some (Ckpt \<lparr>ck_epoch = 1, ck_state_dict = 1, ck_optimizer = 1, ck_score = 1 / 2\<rparr>)"
    by simp
  have n: "returned (epoch_cycle (demo_env demo_score) 1 demo_loop_state) \<noteq> None"
    by (simp only: r returned_def sum.case option.distinct not_False_eq_True)
  show ?thesis using demo_saves_as_specified [of demo_score] n 1 2 3 unfolding S_def by blast
qed

text \<open>
  Claim C10. In a fresh training run (no file at the resume path) that returns and in
  which no evaluation score exceeded 0, \<^verbatim>\<open>save_checkpoint\<close> was called once per epoch
  of the range, in order, every time with \<^verbatim>\<open>is_best\<close> false, and the best score is
  still 0. With \<^verbatim>\<open>save_checkpoint\<close> as the specification describes it and two
  different slot names, the "best" slot holds what it held before the run, and the
  "latest" slot holds the checkpoint of the last epoch when the range is not empty.
\<close>

theorem nonpositive_scores_never_best:
  assumes "main E c files = Inr s'" and "\<not> TRAIN_EVALUATE c"
    and "\<not> isfile files (TRAIN_RESUME_PATH c)"
    and "\<forall>x\<in>set (scores (trace s')). x \<le> 0"
    and "saves_as_specified path_of E"
    and "path_of Best (BACKUP_DIR c) (TRAIN_DATASET c) (DATA_NUM_FRAMES c) \<noteq>
         path_of Latest (BACKUP_DIR c) (TRAIN_DATASET c) (DATA_NUM_FRAMES c)"
  shows "map snd (saves (trace s')) =
           replicate (length [TRAIN_BEGIN_EPOCH c .. TRAIN_END_EPOCH c]) False \<and>
         map (\<lambda>sv. ck_epoch (fst sv)) (saves (trace s')) =
           [TRAIN_BEGIN_EPOCH c .. TRAIN_END_EPOCH c] \<and>
         length (saves (trace s')) = nat (TRAIN_END_EPOCH c - TRAIN_BEGIN_EPOCH c + 1) \<and>
         best_score s' = 0 \<and>
         fs s' (path_of Best (BACKUP_DIR c) (TRAIN_DATASET c) (DATA_NUM_FRAMES c)) =
           files (path_of Best (BACKUP_DIR c) (TRAIN_DATASET c) (DATA_NUM_FRAMES c)) \<and>
         (TRAIN_BEGIN_EPOCH c \<le> TRAIN_END_EPOCH c \<longrightarrow>
            (\<exists>st. fs s' (path_of Latest (BACKUP_DIR c) (TRAIN_DATASET c) (DATA_NUM_FRAMES c)) =
                    Some (Ckpt st) \<and> ck_epoch st = TRAIN_END_EPOCH c))"
proof -
  let ?b = "TRAIN_BEGIN_EPOCH c" and ?e = "TRAIN_END_EPOCH c"
  let ?dir = "BACKUP_DIR c" and ?ds = "TRAIN_DATASET c" and ?nf = "DATA_NUM_FRAMES c"
  from assms(3) have n: "files (TRAIN_RESUME_PATH c) = None" by (simp add: isfile_def)
  from assms(1,2) obtain s1 s2 where p: "prepare E c files = Inr s1"
    and d: "select_dataset E s1 = Inr s2"
    and l0: "epoch_loop E [TRAIN_BEGIN_EPOCH (cfg s1) .. ?e] s2 = Inr s'"
    by (rule main_training_cases)
  from prepare_returns [OF p] n select_dataset_returns [OF d]
  have i: "cfg s2 = c" "best_score s2 = 0" "fs s2 = files" "scores (trace s2) = []"
    "saves (trace s2) = []"
    by simp_all
  from prepare_returns [OF p] n have "cfg s1 = c" by simp
  with l0 have l: "epoch_loop E [?b..?e] s2 = Inr s'" by simp
  from epoch_loop_returns [OF l] i obtain xs svs where
    1: "length xs = length [?b..?e]" "scores (trace s') = xs" "saves (trace s') = svs"
       "map (\<lambda>sv. ck_epoch (fst sv)) svs = [?b..?e]"
       "map snd svs = best_flags 0 xs" "best_score s' = best_after 0 xs"
    by auto
  from assms(4) 1(2) have "\<forall>x\<in>set xs. x \<le> 0" by simp
  from best_flags_none [OF this] 1
  have fl: "map snd svs = replicate (length [?b..?e]) False" and b: "best_score s' = 0"
    by simp_all
  from epoch_loop_fs [OF l assms(5)] i 1(3)
  have f: "fs s' = write_all path_of ?dir ?ds ?nf files svs" by simp
  have nb: "\<forall>sv\<in>set svs. \<not> snd sv"
  proof
    fix sv assume "sv \<in> set svs"
    then have "snd sv \<in> set (map snd svs)" by simp
    with fl show "\<not> snd sv" by simp
  qed
  have best: "fs s' (path_of Best ?dir ?ds ?nf) = files (path_of Best ?dir ?ds ?nf)"
    unfolding f using nb assms(6) by (rule write_all_best_unchanged)
  have len: "length (saves (trace s')) = nat (?e - ?b + 1)"
  proof -
    have "length svs = length (map (\<lambda>sv. ck_epoch (fst sv)) svs)" by simp
    also have "\<dots> = length [?b..?e]" by (simp only: 1(4))
    finally show ?thesis using 1(3) by simp
  qed
  have latest: "\<exists>st. fs s' (path_of Latest ?dir ?ds ?nf) = Some (Ckpt st) \<and> ck_epoch st = ?e"
    if be: "?b \<le> ?e"
  proof -
    from be have ne: "[?b..?e] \<noteq> []" by simp
    with 1(4) have sne: "svs \<noteq> []" by auto
    from write_all_latest [OF sne]
    have "fs s' (path_of Latest ?dir ?ds ?nf) = Some (Ckpt (fst (last svs)))"
      by (simp add: f)
    moreover have "ck_epoch (fst (last svs)) = last (map (\<lambda>sv. ck_epoch (fst sv)) svs)"
      using sne by (simp add: last_map)
    moreover have "last [?b..?e] = ?e" using be by (simp add: upto_rec2)
    ultimately show ?thesis using 1(4) by simp
  qed
  from fl 1(3,4) len b best latest show ?thesis by simp
qed


theorem nonpositive_scores_never_best_witness:
  "\<not> TRAIN_EVALUATE demo_cfg \<and>
   \<not> isfile (Map.empty :: (nat, nat) files) (TRAIN_RESUME_PATH demo_cfg) \<and>
   saves_as_specified demo_path (demo_env flat_score) \<and>
   demo_path Best ''b'' ''ucf24'' 16 \<noteq> demo_path Latest ''b'' ''ucf24'' 16 \<and>
   returned (main (demo_env flat_score) demo_cfg Map.empty) \<noteq> None \<and>
   scores (trace (the (returned (main (demo_env flat_score) demo_cfg Map.empty)))) =
     [0, - 1, - 1] \<and>
   map snd (saves (trace (the (returned (main (demo_env flat_score) demo_cfg Map.empty))))) =
     [False, False, False] \<and>
   best_score (the (returned (main (demo_env flat_score) demo_cfg Map.empty))) = 0 \<and>
   fs (the (returned (main (demo_env flat_score) demo_cfg Map.empty)))
      (demo_path Best ''b'' ''ucf24'' 16) = None"
proof -
  define S where "S = the (returned (main (demo_env flat_score) demo_cfg Map.empty))"
  have e: "\<not> TRAIN_EVALUATE demo_cfg" by (simp add: demo_cfg_def)
  have a: "\<not> isfile (Map.empty :: (nat, nat) files) (TRAIN_RESUME_PATH demo_cfg)"
    by (simp add: isfile_def)
  have r: "main (demo_env flat_score) demo_cfg Map.empty = Inr S"
    unfolding S_def by (simp add: run_defs returned_def flat_score_def)
  have sc: "scores (trace S) = [0, - 1, - 1]"
    unfolding S_def by (simp add: run_defs returned_def flat_score_def trace_defs)
  then have le: "\<forall>x\<in>set (scores (trace S)). x \<le> 0" by simp
  have c: "BACKUP_DIR demo_cfg = ''b''" "TRAIN_DATASET demo_cfg = ''ucf24''"
    "DATA_NUM_FRAMES demo_cfg = 16" "TRAIN_BEGIN_EPOCH demo_cfg = 1"
    "TRAIN_END_EPOCH demo_cfg = 3"
    by (simp_all add: demo_cfg_def)
  have dp: "demo_path Best ''b'' ''ucf24'' 16 \<noteq> demo_path Latest ''b'' ''ucf24'' 16"
    by (simp add: demo_path_def)
  have dp': "demo_path Best (BACKUP_DIR demo_cfg) (TRAIN_DATASET demo_cfg)
                   (DATA_NUM_FRAMES demo_cfg) \<noteq>
                  demo_path Latest (BACKUP_DIR demo_cfg) (TRAIN_DATASET demo_cfg)
                   (DATA_NUM_FRAMES demo_cfg)"
    by (simp add: demo_path_def)
  note T = nonpositive_scores_never_best [OF r e a le demo_saves_as_specified dp']
  from T have "map snd (saves (trace S)) = replicate (length [1 :: int .. 3]) False"
    by (simp only: c)
  then have f: "map snd (saves (trace S)) = [False, False, False]"
    by (simp add: upto.simps)
  from T have b: "best_score S = 0" by blast
  from T have "fs S (demo_path Best ''b'' ''ucf24'' 16) =
     (Map.empty :: (nat, nat) files) (demo_path Best ''b'' ''ucf24'' 16)"
    by (simp only: c)
  then have k: "fs S (demo_path Best ''b'' ''ucf24'' 16) = None" by simp
  have n: "returned (main (demo_env flat_score) demo_cfg Map.empty) \<noteq> None"
    by (simp only: r returned_def sum.case option.distinct not_False_eq_True)
  show ?thesis
    using e a demo_saves_as_specified [of flat_score] dp n sc f b k unfolding S_def by blast
qed

end
